theory Spec2Isabelle
  imports Complex_Main
begin


section \<open>Text primitives of the host language\<close>

text \<open>
  The scripts are Python. Its \<open>str\<close> values are modelled as \<^typ>\<open>string\<close>, one
  \<^typ>\<open>char\<close> per code point (code points below 256 only). The functions below model
  the library calls the scripts make: \<open>str.rstrip()\<close>, \<open>str.strip()\<close>, \<open>str.split(",")\<close>,
  \<open>str.split()\<close> and \<open>int(str)\<close>.
\<close>

definition is_space :: "char \<Rightarrow> bool" where
  "is_space c = ((of_char c :: nat) \<in> {9, 10, 11, 12, 13, 28, 29, 30, 31, 32, 133, 160})"

definition lstrip :: "string \<Rightarrow> string" where
  "lstrip s = dropWhile is_space s"

definition rstrip :: "string \<Rightarrow> string" where
  "rstrip s = rev (dropWhile is_space (rev s))"

definition strip :: "string \<Rightarrow> string" where
  "strip s = lstrip (rstrip s)"

text \<open>\<open>s.split(d)\<close> for a one-character delimiter: always at least one field.\<close>

fun split_on :: "char \<Rightarrow> string \<Rightarrow> string list" where
  "split_on d [] = [[]]"
| "split_on d (c # cs) =
     (if c = d then [] # split_on d cs
      else (case split_on d cs of
              [] \<Rightarrow> [[c]]
            | p # ps \<Rightarrow> (c # p) # ps))"

text \<open>\<open>s.split()\<close>: the maximal runs of non-whitespace characters, in order.\<close>

function split_ws :: "string \<Rightarrow> string list" where
  "split_ws s =
     (let t = dropWhile is_space s
      in if t = [] then []
         else takeWhile (\<lambda>c. \<not> is_space c) t # split_ws (dropWhile (\<lambda>c. \<not> is_space c) t))"
  by pat_completeness auto
termination
proof (relation "measure length")
  show "wf (measure length)" by simp
next
  fix s t :: string
  assume t: "t = dropWhile is_space s" and ne: "t \<noteq> []"
  have "length (dropWhile (\<lambda>c. \<not> is_space c) t) < length t"
  proof (cases t)
    case Nil
    with ne show ?thesis by simp
  next
    case (Cons c cs)
    have "\<not> is_space (hd t)"
      using t ne hd_dropWhile [of is_space s] by simp
    then have "\<not> is_space c"
      using Cons by simp
    then have "dropWhile (\<lambda>c. \<not> is_space c) t = dropWhile (\<lambda>c. \<not> is_space c) cs"
      using Cons by auto
    then show ?thesis
      using Cons length_dropWhile_le [of "\<lambda>c. \<not> is_space c" cs] by simp
  qed
  also have "length t \<le> length s"
    using t length_dropWhile_le [of is_space s] by simp
  finally show "(dropWhile (\<lambda>c. \<not> is_space c) t, s) \<in> measure length" by simp
qed

declare split_ws.simps [simp del]

text \<open>
  \<open>int(s)\<close> in base 10: surrounding whitespace is stripped, one sign is allowed, then
  decimal digits, where single underscores may separate digits. Anything else raises
  \<open>ValueError\<close>, which is \<^const>\<open>None\<close> here. The whitespace that \<open>int\<close> strips is
  not that of \<open>str.strip\<close>: of the code points below 256 it is tab, line feed, vertical
  tab, form feed, carriage return, space, U+0085 and U+00A0, but not U+001C to U+001F.
  A string with more than 4300 digits raises \<open>ValueError\<close> as well (the default of
  \<open>sys.int_max_str_digits\<close>); signs, underscores and whitespace do not count.
\<close>

definition is_digit :: "char \<Rightarrow> bool" where
  "is_digit c = (48 \<le> (of_char c :: nat) \<and> (of_char c :: nat) \<le> 57)"

definition digit_val :: "char \<Rightarrow> int" where
  "digit_val c = int (of_char c) - 48"

definition is_int_space :: "char \<Rightarrow> bool" where
  "is_int_space c = ((of_char c :: nat) \<in> {9, 10, 11, 12, 13, 32, 133, 160})"

definition int_strip :: "string \<Rightarrow> string" where
  "int_strip s = dropWhile is_int_space (rev (dropWhile is_int_space (rev s)))"

fun int_digits :: "int \<Rightarrow> string \<Rightarrow> int option" where
  "int_digits acc [] = Some acc"
| "int_digits acc [c] = (if is_digit c then Some (acc * 10 + digit_val c) else None)"
| "int_digits acc (c # d # cs) =
     (if is_digit c then int_digits (acc * 10 + digit_val c) (d # cs)
      else if c = CHR ''_'' \<and> is_digit d then int_digits (acc * 10 + digit_val d) cs
      else None)"

definition int_unsigned :: "string \<Rightarrow> int option" where
  "int_unsigned s =
     (case s of
        [] \<Rightarrow> None
      | c # cs \<Rightarrow> if is_digit c then int_digits (digit_val c) cs else None)"

definition int_max_str_digits :: nat where
  "int_max_str_digits = 4300"

definition py_int :: "string \<Rightarrow> int option" where
  "py_int s =
     (case int_strip s of
        [] \<Rightarrow> None
      | c # cs \<Rightarrow>
          let body = (if c = CHR ''-'' \<or> c = CHR ''+'' then cs else c # cs)
          in if length (filter is_digit body) > int_max_str_digits then None
             else if c = CHR ''-'' then map_option uminus (int_unsigned body)
             else int_unsigned body)"

section \<open>Uncaught exceptions\<close>

text \<open>
  The exceptions that the program does not catch, named by what fails: an assertion of
  the self-test, the creation of the cache directory, a query on a database without the
  tables of the index, an integer parameter of a query outside the 64-bit range of the
  database, a timestamp outside the years 1 to 9999 of \<open>datetime\<close>, a date after
  9999-12-31, a quotient too large for a float, a local file that cannot be opened or
  read, and a cached file that is not a zip archive.
\<close>

datatype failure =
    AssertionFailed
  | DirectoryError
  | DatabaseError
  | SqlIntegerOverflow
  | TimestampOutOfRange
  | DateOverflow
  | FloatOverflow
  | FileReadError
  | BadZipFile

section \<open>Numbers and dates as text\<close>

text \<open>\<open>str(n)\<close> for an integer: decimal digits, a minus sign for negative numbers.\<close>

definition digit_char :: "nat \<Rightarrow> char" where
  "digit_char d = ''0123456789'' ! d"

fun str_nat :: "nat \<Rightarrow> string" where
  "str_nat n = (if n < 10 then [digit_char n] else str_nat (n div 10) @ [digit_char (n mod 10)])"

declare str_nat.simps [simp del]

definition str_int :: "int \<Rightarrow> string" where
  "str_int i = (if i < 0 then CHR ''-'' # str_nat (nat (- i)) else str_nat (nat i))"

text \<open>A number printed with at least \<open>w\<close> digits, zero filled (\<open>%02d\<close>, \<open>%04d\<close>).\<close>

definition zero_pad :: "nat \<Rightarrow> nat \<Rightarrow> string" where
  "zero_pad w n = replicate (w - length (str_nat n)) CHR ''0'' @ str_nat n"

subsection \<open>The calendar of the \<open>datetime\<close> library\<close>



definition DAYS_IN_MONTH :: "int list" where
  "DAYS_IN_MONTH = [-1, 31, 28, 31, 30, 31, 30, 31, 31, 30, 31, 30, 31]"

definition DAYS_BEFORE_MONTH :: "int list" where
  "DAYS_BEFORE_MONTH = [-1, 0, 31, 59, 90, 120, 151, 181, 212, 243, 273, 304, 334]"



text \<open>
  The month and the day of the month of the day numbered \<open>n\<close> (from 0) of a year:
  an estimate of the month that is exact or one too large, then the correction.
\<close>

definition month_day :: "bool \<Rightarrow> int \<Rightarrow> nat \<times> int" where
  "month_day leapyear n =
     (let month = nat ((n + 50) div 32);
          preceding = DAYS_BEFORE_MONTH ! month + (if month > 2 \<and> leapyear then 1 else 0)
      in if preceding > n
         then
           let month = month - 1;
               preceding = preceding
                 - (DAYS_IN_MONTH ! month + (if month = 2 \<and> leapyear then 1 else 0))
           in (month, n - preceding + 1)
         else (month, n - preceding + 1))"


definition ord2ymd :: "int \<Rightarrow> int \<times> nat \<times> int" where
  "ord2ymd n0 =
     (let n = n0 - 1;
          n400 = n div 146097; n = n mod 146097;
          year = n400 * 400 + 1;
          n100 = n div 36524; n = n mod 36524;
          n4 = n div 1461; n = n mod 1461;
          n1 = n div 365; n = n mod 365;
          year = year + n100 * 100 + n4 * 4 + n1
      in if n1 = 4 \<or> n100 = 4 then (year - 1, 12, 31)
         else
           let leapyear = (n1 = 3 \<and> (n4 \<noteq> 24 \<or> n100 = 3))
           in (year, month_day leapyear n))"

text \<open>
  A \<open>date\<close> value is represented by the number of days since 1970-01-01, whose ordinal
  is 719163. \<open>datetime.utcfromtimestamp(ms / 1000)\<close> raises for a timestamp outside
  the years 1 to 9999, that is before 0001-01-01 00:00:00 or after 9999-12-31
  23:59:59.999. Inside that range the date is the day the millisecond falls in: the
  quotient \<open>ms / 1000\<close> is a float, but there it is well inside the range where the
  float keeps the millisecond, and the date is the floor of the division by the length
  of a day.
\<close>

type_synonym date = int

definition utc_date :: "int \<Rightarrow> date" where
  "utc_date ms = ms div 86400000"

definition in_datetime_range :: "int \<Rightarrow> bool" where
  "in_datetime_range ms = (- 62135596800000 \<le> ms \<and> ms \<le> 253402300799999)"

definition utcfromtimestamp_date :: "int \<Rightarrow> failure + date" where
  "utcfromtimestamp_date ms =
     (if in_datetime_range ms then Inr (utc_date ms) else Inl TimestampOutOfRange)"

text \<open>\<open>date.max\<close>, 9999-12-31: adding a day to it raises \<open>OverflowError\<close>.\<close>

definition date_max :: date where
  "date_max = 2932896"

definition date_ymd :: "date \<Rightarrow> int \<times> nat \<times> int" where
  "date_ymd d = ord2ymd (d + 719163)"

text \<open>
  \<open>date.strftime("%Y-%m-%d")\<close> as the C library of Linux prints it: month and day
  with two digits, the year without padding (\<open>999-12-31\<close>).
\<close>

definition strftime_ymd :: "date \<Rightarrow> string" where
  "strftime_ymd d =
     (case date_ymd d of (year, month, day) \<Rightarrow>
        str_int year @ ''-'' @ zero_pad 2 month @ ''-'' @ zero_pad 2 (nat day))"

text \<open>\<open>fmt_ts\<close>: \<open>utcfromtimestamp(ms / 1000).strftime("%Y-%m-%d %H:%M:%S")\<close>.\<close>

definition fmt_ts :: "int \<Rightarrow> failure + string" where
  "fmt_ts ms =
     (if \<not> in_datetime_range ms then Inl TimestampOutOfRange
      else
        let secs = ms div 1000;
            tod = nat (secs mod 86400)
        in Inr (strftime_ymd (secs div 86400) @ '' ''
                @ zero_pad 2 (tod div 3600) @ '':''
                @ zero_pad 2 (tod mod 3600 div 60) @ '':''
                @ zero_pad 2 (tod mod 60)))"

section \<open>Window decomposer\<close>

text \<open>
  \<open>iter_dates\<close> is a generator that \<open>main\<close> consumes with \<open>list\<close>; the model is the
  list it yields, or the exception that ends it. The loop runs while
  \<open>current <= end_date\<close>; after each day it steps \<open>current\<close> by one day, which raises
  when \<open>current\<close> is the last date of the calendar.
\<close>

function dates_from :: "date \<Rightarrow> date \<Rightarrow> failure + string list" where
  "dates_from current end_date =
     (if current \<le> end_date
      then (if date_max \<le> current then Inl DateOverflow
            else (case dates_from (current + 1) end_date of
                    Inl f \<Rightarrow> Inl f
                  | Inr days \<Rightarrow> Inr (strftime_ymd current # days)))
      else Inr [])"
  by pat_completeness auto
termination
  by (relation "measure (\<lambda>(current, end_date). nat (end_date + 1 - current))") auto

declare dates_from.simps [simp del]

definition iter_dates :: "int \<Rightarrow> int \<Rightarrow> failure + string list" where
  "iter_dates start_ms end_ms =
     (case utcfromtimestamp_date start_ms of
        Inl f \<Rightarrow> Inl f
      | Inr start_date \<Rightarrow>
          (case utcfromtimestamp_date end_ms of
             Inl f \<Rightarrow> Inl f
           | Inr end_date \<Rightarrow> dates_from start_date end_date))"

section \<open>Ratio formatting\<close>

text \<open>
  \<open>actual / estimated\<close> is Python's true division of two integers: the double nearest
  to the quotient, ties to the even significand. A double is \<open>m * 2 ^ e\<close> with a
  significand \<open>m\<close> of at most 53 bits and \<open>e\<close> no smaller than -1074. The model keeps
  the pair \<open>(m, e)\<close>. When the nearest double would be \<open>2 ^ 1024\<close> or more, the division
  raises \<open>OverflowError\<close>.
\<close>

text \<open>The integer nearest to \<open>n / d\<close> for \<open>d > 0\<close>, ties to even.\<close>

definition round_half_even :: "int \<Rightarrow> int \<Rightarrow> int" where
  "round_half_even n d =
     (let q = n div d; r = n mod d
      in if 2 * r < d then q
         else if 2 * r > d then q + 1
         else if even q then q else q + 1)"

text \<open>\<open>int.bit_length()\<close> of a non-negative integer.\<close>

fun bit_length :: "nat \<Rightarrow> nat" where
  "bit_length n = (if n = 0 then 0 else Suc (bit_length (n div 2)))"

declare bit_length.simps [simp del]

text \<open>\<open>floor (log2 (a / b))\<close> for positive \<open>a\<close> and \<open>b\<close>, from the bit lengths.\<close>

definition quotient_ge_pow2 :: "int \<Rightarrow> int \<Rightarrow> int \<Rightarrow> bool" where
  "quotient_ge_pow2 a b k =
     (if 0 \<le> k then b * 2 ^ nat k \<le> a else b \<le> a * 2 ^ nat (- k))"

definition quotient_log2 :: "int \<Rightarrow> int \<Rightarrow> int" where
  "quotient_log2 a b =
     (let k = int (bit_length (nat a)) - int (bit_length (nat b))
      in if quotient_ge_pow2 a b k then k else k - 1)"

text \<open>
  The double nearest to \<open>a / b\<close> for \<open>a \<ge> 0\<close> and \<open>b > 0\<close>, as significand and
  exponent, or the overflow.
\<close>

definition true_divide :: "int \<Rightarrow> int \<Rightarrow> failure + int \<times> int" where
  "true_divide a b =
     (if a = 0 then Inr (0, 0)
      else
        let e = max (quotient_log2 a b - 52) (- 1074);
            m = (if 0 \<le> e then round_half_even a (b * 2 ^ nat e)
                 else round_half_even (a * 2 ^ nat (- e)) b)
        in if 0 \<le> e \<and> 2 ^ 1024 \<le> m * 2 ^ nat e then Inl FloatOverflow
           else Inr (m, e))"

text \<open>
  \<open>format(x, ".4f")\<close> of a non-negative double \<open>x = m * 2 ^ e\<close>: the decimal with four
  fractional digits nearest to the exact value of \<open>x\<close>, ties to even. The number of
  ten-thousandths comes first, then its digits.
\<close>

definition ten_thousandths :: "int \<times> int \<Rightarrow> int" where
  "ten_thousandths x =
     (case x of (m, e) \<Rightarrow>
        if 0 \<le> e then m * 2 ^ nat e * 10000
        else round_half_even (m * 10000) (2 ^ nat (- e)))"

definition fixed4 :: "int \<times> int \<Rightarrow> string" where
  "fixed4 x =
     (let n = ten_thousandths x
      in str_nat (nat (n div 10000)) @ ''.'' @ zero_pad 4 (nat (n mod 10000)))"

definition fmt_ratio :: "int \<Rightarrow> int \<Rightarrow> failure + string" where
  "fmt_ratio actual estimated =
     (if estimated \<le> 0 then Inr ''n/a''
      else (case true_divide \<bar>actual\<bar> estimated of
              Inl f \<Rightarrow> Inl f
            | Inr x \<Rightarrow> Inr ((if actual < 0 then ''-'' else []) @ fixed4 x @ ''x'')))"

subsection \<open>Specification vocabulary for the ratio\<close>



section \<open>Window scanner\<close>

text \<open>
  A reference archive is a zip file. It is modelled by its directory: the members in
  directory order, each with its name and the text lines that iterating over the opened
  member yields. \<open>ZipFile.namelist()\<close> lists every entry; \<open>ZipFile.open(name)\<close> resolves
  a name through the name table, where a later entry of the same name replaces an
  earlier one.
\<close>

type_synonym zip_archive = "(string \<times> string list) list"

definition namelist :: "zip_archive \<Rightarrow> string list" where
  "namelist zf = map fst zf"

definition zip_open :: "zip_archive \<Rightarrow> string \<Rightarrow> string list option" where
  "zip_open zf name = map_of (rev zf) name"

definition endswith :: "string \<Rightarrow> string \<Rightarrow> bool" where
  "endswith s suffix =
     (length suffix \<le> length s \<and> drop (length s - length suffix) s = suffix)"

text \<open>The result triple of a scan: count, first hit, last hit.\<close>

type_synonym scan_result = "nat \<times> int option \<times> int option"

text \<open>
  The loop over the lines of the member. \<open>continue\<close> is the recursive call on the
  remaining lines with the state unchanged, \<open>break\<close> returns the state.
\<close>

fun scan_rows :: "int \<Rightarrow> int \<Rightarrow> nat \<Rightarrow> scan_result \<Rightarrow> string list \<Rightarrow> scan_result" where
  "scan_rows start_ms end_ms ts_index st [] = st"
| "scan_rows start_ms end_ms ts_index (count, first_ts, last_ts) (line # rest) =
     (let parts = split_on CHR '','' (rstrip line)
      in if length parts \<le> ts_index
         then scan_rows start_ms end_ms ts_index (count, first_ts, last_ts) rest
         else (case py_int (parts ! ts_index) of
                 None \<Rightarrow> scan_rows start_ms end_ms ts_index (count, first_ts, last_ts) rest
               | Some ts \<Rightarrow>
                   if ts < start_ms
                   then scan_rows start_ms end_ms ts_index (count, first_ts, last_ts) rest
                   else if ts > end_ms then (count, first_ts, last_ts)
                   else scan_rows start_ms end_ms ts_index
                          (count + 1,
                           (if first_ts = None then Some ts else first_ts),
                           Some ts) rest))"

definition scan_zip_for_window :: "zip_archive \<Rightarrow> int \<Rightarrow> int \<Rightarrow> nat \<Rightarrow> scan_result" where
  "scan_zip_for_window zf start_ms end_ms ts_index =
     (let names = filter (\<lambda>n. \<not> endswith n ''/'') (namelist zf)
      in case names of
           [] \<Rightarrow> (0, None, None)
         | n # _ \<Rightarrow>
             (case zip_open zf n of
                None \<Rightarrow> (0, None, None)
              | Some rows \<Rightarrow> scan_rows start_ms end_ms ts_index (0, None, None) rows))"

subsection \<open>Specification vocabulary for the scanner\<close>

text \<open>
  The timestamp a row carries, if it has one: the field at the column index, when the
  row has that many fields and the field parses as an integer.
\<close>

definition row_ts :: "nat \<Rightarrow> string \<Rightarrow> int option" where
  "row_ts ts_index line =
     (let parts = split_on CHR '','' (rstrip line)
      in if length parts \<le> ts_index then None else py_int (parts ! ts_index))"

text \<open>The timestamps of the well-formed rows, in file order.\<close>

definition row_timestamps :: "nat \<Rightarrow> string list \<Rightarrow> int list" where
  "row_timestamps ts_index rows = List.map_filter (row_ts ts_index) rows"

text \<open>
  The hits of a window: the timestamps not below the window start, up to the first of
  them that lies above the window end.
\<close>

definition window_hits :: "int \<Rightarrow> int \<Rightarrow> int list \<Rightarrow> int list" where
  "window_hits start_ms end_ms tss =
     takeWhile (\<lambda>t. t \<le> end_ms) (filter (\<lambda>t. start_ms \<le> t) tss)"

definition hits_summary :: "int list \<Rightarrow> scan_result" where
  "hits_summary hs =
     (length hs,
      (if hs = [] then None else Some (hd hs)),
      (if hs = [] then None else Some (last hs)))"

text \<open>The member the scanner reads: the one the first non-directory name resolves to.\<close>

definition scanned_member :: "zip_archive \<Rightarrow> string list option" where
  "scanned_member zf =
     (case filter (\<lambda>n. \<not> endswith n ''/'') (namelist zf) of
        [] \<Rightarrow> None
      | n # _ \<Rightarrow> zip_open zf n)"

text \<open>
  Four rows of a spot-trades archive (timestamp in column 4) with the timestamps 100,
  200, 300 and 400.
\<close>

definition example_rows :: "string list" where
  "example_rows =
     [''1,0.5,2.0,1.0,100,True,True\<newline>'',
      ''2,0.5,2.0,1.0,200,True,True\<newline>'',
      ''3,0.5,2.0,1.0,300,False,True\<newline>'',
      ''4,0.5,2.0,1.0,400,True,True\<newline>'']"

section \<open>Timestamp resolver: reading a line of a local file\<close>

subsection \<open>Paths of the \<open>pathlib\<close> library\<close>

text \<open>
  A \<open>Path\<close> on a POSIX system is an anchor and the components after it. The anchor is
  \<open>/\<close> for an absolute path, \<open>//\<close> when the text starts with exactly two slashes, and
  empty for a relative path. \<open>Path(s)\<close> splits the text at the slashes and drops the
  empty components and the components \<open>.\<close>, so doubled and trailing slashes disappear;
  \<open>..\<close> stays.
\<close>

record path =
  path_anchor :: string
  path_parts :: "string list"

definition path_of :: "string \<Rightarrow> path" where
  "path_of s =
     \<lparr>path_anchor =
        (if length (takeWhile (\<lambda>c. c = CHR ''/'') s) = 2 then ''//''
         else if s \<noteq> [] \<and> hd s = CHR ''/'' then ''/''
         else []),
      path_parts = filter (\<lambda>x. x \<noteq> [] \<and> x \<noteq> ''.'') (split_on CHR ''/'' s)\<rparr>"

text \<open>\<open>a / b\<close>: an anchored second operand replaces the first.\<close>

definition truediv :: "path \<Rightarrow> path \<Rightarrow> path" where
  "truediv a b =
     (if path_anchor b \<noteq> [] then b
      else \<lparr>path_anchor = path_anchor a, path_parts = path_parts a @ path_parts b\<rparr>)"

text \<open>\<open>sep.join(xs)\<close>.\<close>

fun join_sep :: "string list \<Rightarrow> string" where
  "join_sep [] = []"
| "join_sep [x] = x"
| "join_sep (x # y # ys) = x @ ''/'' @ join_sep (y # ys)"

text \<open>\<open>str(p)\<close>, which is also the text that \<open>open\<close> receives; the empty path is \<open>.\<close>.\<close>

definition str_path :: "path \<Rightarrow> string" where
  "str_path p =
     (let s = path_anchor p @ join_sep (path_parts p) in if s = [] then ''.'' else s)"

text \<open>
  \<open>Path.name\<close> is the last component, empty when there is none. \<open>Path.suffix\<close> is the
  part of the name from its last dot on, unless that dot starts or ends the name.
\<close>

definition path_name :: "path \<Rightarrow> string" where
  "path_name p = (if path_parts p = [] then [] else last (path_parts p))"

definition path_suffix :: "path \<Rightarrow> string" where
  "path_suffix p =
     (let name = path_name p;
          ext = rev (takeWhile (\<lambda>c. c \<noteq> CHR ''.'') (rev name))
      in if CHR ''.'' \<in> set name \<and> ext \<noteq> [] \<and> length ext + 1 < length name
         then CHR ''.'' # ext
         else [])"

definition resolve_file_path :: "string \<Rightarrow> string \<Rightarrow> path" where
  "resolve_file_path root_path relative_path =
     (let rel = path_of relative_path in truediv (path_of root_path) rel)"

subsection \<open>Local files\<close>

text \<open>
  Iterating over an open file yields lines and then either ends or raises: a gzip stream
  that is no gzip data raises \<open>BadGzipFile\<close> at the first read, a truncated one
  \<open>EOFError\<close>, a failing device \<open>OSError\<close>. A stream is the lines that come before the
  end, and whether the end is an error. A file has two readings: the one of
  \<open>open(path, "rt", errors="ignore")\<close> and the one of \<open>gzip.open(path, "rt",
  errors="ignore")\<close>.
\<close>

record stream =
  stream_lines :: "string list"
  stream_fails :: bool

record text_file =
  plain_read :: stream
  gunzip_read :: stream

text \<open>
  What is behind a path: nothing (opening raises \<open>FileNotFoundError\<close>), something
  that cannot be opened for reading (a directory, a path through a file, a file without
  permission: \<open>IsADirectoryError\<close>, \<open>NotADirectoryError\<close>, \<open>PermissionError\<close>), or a
  file.
\<close>

datatype node = NoSuchFile | CannotOpen | TextFile text_file

type_synonym file_system = "string \<Rightarrow> node"

text \<open>
  The loop \<open>for idx, line in enumerate(handle, start=1)\<close>: it returns at the line
  numbered \<open>line_number\<close>; when the lines run out it falls through to \<open>return None\<close>,
  unless the stream ends in an error, which no handler catches.
\<close>

fun line_loop :: "string list \<Rightarrow> bool \<Rightarrow> int \<Rightarrow> int \<Rightarrow> failure + int option" where
  "line_loop [] fails idx line_number = (if fails then Inl FileReadError else Inr None)"
| "line_loop (line # rest) fails idx line_number =
     (if idx = line_number
      then (case split_ws (strip line) of
              [] \<Rightarrow> Inr None
            | p # _ \<Rightarrow> Inr (py_int p))
      else line_loop rest fails (idx + 1) line_number)"

definition read_line_timestamp :: "file_system \<Rightarrow> path \<Rightarrow> int \<Rightarrow> failure + int option" where
  "read_line_timestamp fs file_path line_number =
     (let gz = (path_suffix file_path = ''.gz'')
      in case fs (str_path file_path) of
           NoSuchFile \<Rightarrow> Inr None
         | CannotOpen \<Rightarrow> Inl FileReadError
         | TextFile f \<Rightarrow>
             (let handle = (if gz then gunzip_read f else plain_read f)
              in line_loop (stream_lines handle) (stream_fails handle) 1 line_number))"

subsection \<open>Specification vocabulary for the resolver\<close>

text \<open>
  The first whitespace-delimited token of a line, if it has one, and the integer that
  the token denotes, if it is a valid integer.
\<close>

definition first_token :: "string \<Rightarrow> string option" where
  "first_token line =
     (let t = takeWhile (\<lambda>c. \<not> is_space c) (dropWhile is_space line)
      in if t = [] then None else Some t)"

definition first_token_int :: "string \<Rightarrow> int option" where
  "first_token_int line = (case first_token line of None \<Rightarrow> None | Some t \<Rightarrow> py_int t)"

text \<open>The line numbered \<open>n\<close>, counting from 1, if there is one.\<close>

definition line_at :: "string list \<Rightarrow> int \<Rightarrow> string option" where
  "line_at ls n = (if 1 \<le> n \<and> n \<le> int (length ls) then Some (ls ! nat (n - 1)) else None)"

text \<open>
  The file name ends in \<open>.gz\<close>; and the file name is some non-empty text followed by
  \<open>.gz\<close>.
\<close>

definition ends_in_gz :: "string \<Rightarrow> bool" where
  "ends_in_gz name = endswith name ''.gz''"

definition has_gz_suffix :: "string \<Rightarrow> bool" where
  "has_gz_suffix name = (endswith name ''.gz'' \<and> 3 < length name)"

section \<open>Gap selector\<close>

subsection \<open>The command line\<close>

text \<open>The four datasets that \<open>--dataset\<close> accepts, with their URL and column tables.\<close>

datatype dataset = SpotTrades | FuturesUmTrades | SpotAgg | FuturesUmAgg

text \<open>\<open>DATASET_URLS[dataset].format(symbol=symbol, date=date)\<close>.\<close>

fun dataset_url :: "dataset \<Rightarrow> string \<Rightarrow> string \<Rightarrow> string" where
  "dataset_url SpotTrades symbol date =
     ''https://data.binance.vision/data/spot/daily/trades/'' @ symbol @ ''/'' @ symbol
     @ ''-trades-'' @ date @ ''.zip''"
| "dataset_url FuturesUmTrades symbol date =
     ''https://data.binance.vision/data/futures/um/daily/trades/'' @ symbol @ ''/'' @ symbol
     @ ''-trades-'' @ date @ ''.zip''"
| "dataset_url SpotAgg symbol date =
     ''https://data.binance.vision/data/spot/daily/aggTrades/'' @ symbol @ ''/'' @ symbol
     @ ''-aggTrades-'' @ date @ ''.zip''"
| "dataset_url FuturesUmAgg symbol date =
     ''https://data.binance.vision/data/futures/um/daily/aggTrades/'' @ symbol @ ''/'' @ symbol
     @ ''-aggTrades-'' @ date @ ''.zip''"

fun DATASET_TS_INDEX :: "dataset \<Rightarrow> nat" where
  "DATASET_TS_INDEX SpotTrades = 4"
| "DATASET_TS_INDEX FuturesUmTrades = 4"
| "DATASET_TS_INDEX SpotAgg = 5"
| "DATASET_TS_INDEX FuturesUmAgg = 5"

text \<open>
  The namespace \<open>parse_args\<close> returns. An option that was not given is \<^const>\<open>None\<close>;
  \<open>order\<close> is the string the option carries.
\<close>

record args =
  db :: string
  collector :: "string option"
  exchange :: "string option"
  symbol :: "string option"
  binance_symbol :: "string option"
  dataset :: dataset
  limit :: int
  min_miss :: int
  min_gap_ms :: int
  order :: string
  offset :: int
  pool :: int
  seed :: int
  cache_dir :: "string option"
  self_test :: bool

text \<open>Truth of an optional string in a condition: given and not empty.\<close>

definition truthy :: "string option \<Rightarrow> bool" where
  "truthy s = (case s of None \<Rightarrow> False | Some v \<Rightarrow> v \<noteq> [])"

subsection \<open>The index\<close>

text \<open>
  The index has a table \<open>roots\<close>, keyed by id, and a table \<open>events\<close>, whose rows are kept
  in storage order. A column that may be \<open>NULL\<close> is an option. The columns hold what the
  schema declares: text in the text columns and integers in the integer columns.
\<close>

record event =
  ev_id :: int
  ev_root_id :: int
  ev_relative_path :: string
  ev_collector :: "string option"
  ev_exchange :: "string option"
  ev_symbol :: "string option"
  ev_event_type :: string
  ev_start_line :: int
  ev_end_line :: int
  ev_gap_ms :: "int option"
  ev_gap_miss :: "int option"
  ev_gap_end_ts :: "int option"

record index_db =
  roots :: "int \<Rightarrow> string option"
  events :: "event list"

text \<open>A row of the query result, with the columns the query selects.\<close>

record gap_row =
  row_id :: int
  row_root_id :: int
  row_root_path :: string
  row_relative_path :: string
  row_collector :: "string option"
  row_exchange :: "string option"
  row_symbol :: "string option"
  row_start_line :: int
  row_end_line :: int
  row_gap_ms :: int
  row_gap_miss :: int
  row_gap_end_ts :: "int option"

text \<open>
  The \<open>WHERE\<close> clause: the three fixed conditions and one condition for each filter
  whose option is true in a condition (a non-empty string, a non-zero number).
\<close>

definition where_clause :: "args \<Rightarrow> event \<Rightarrow> bool" where
  "where_clause a e =
     (ev_event_type e = ''gap'' \<and> ev_gap_ms e \<noteq> None \<and> ev_gap_miss e \<noteq> None
      \<and> (if truthy (collector a) then ev_collector e = collector a else True)
      \<and> (if truthy (exchange a) then ev_exchange e = exchange a else True)
      \<and> (if truthy (symbol a) then ev_symbol e = symbol a else True)
      \<and> (if min_miss a \<noteq> 0
          then (case ev_gap_miss e of None \<Rightarrow> False | Some m \<Rightarrow> min_miss a \<le> m) else True)
      \<and> (if min_gap_ms a \<noteq> 0
          then (case ev_gap_ms e of None \<Rightarrow> False | Some g \<Rightarrow> min_gap_ms a \<le> g) else True))"

text \<open>\<open>FROM events e JOIN roots r ON r.id = e.root_id WHERE ...\<close>, before ordering.\<close>

definition join_row :: "index_db \<Rightarrow> event \<Rightarrow> gap_row option" where
  "join_row d e =
     (case (roots d (ev_root_id e), ev_gap_ms e, ev_gap_miss e) of
        (Some path, Some g, Some m) \<Rightarrow>
          Some \<lparr>row_id = ev_id e, row_root_id = ev_root_id e, row_root_path = path,
                row_relative_path = ev_relative_path e, row_collector = ev_collector e,
                row_exchange = ev_exchange e, row_symbol = ev_symbol e,
                row_start_line = ev_start_line e, row_end_line = ev_end_line e,
                row_gap_ms = g, row_gap_miss = m, row_gap_end_ts = ev_gap_end_ts e\<rparr>
      | _ \<Rightarrow> None)"

definition select_where :: "index_db \<Rightarrow> args \<Rightarrow> gap_row list" where
  "select_where d a =
     List.map_filter (\<lambda>e. if where_clause a e then join_row d e else None) (events d)"





text \<open>\<open>LIMIT n OFFSET k\<close> of SQLite: a negative limit is no limit, a negative offset is 0.\<close>

definition sql_limit_offset :: "int \<Rightarrow> int \<Rightarrow> 'a list \<Rightarrow> 'a list" where
  "sql_limit_offset n k rows =
     (let rest = drop (nat k) rows
      in if n < 0 then rest else take (nat n) rest)"

text \<open>The slice \<open>rows[k:]\<close>: a negative \<open>k\<close> counts from the end.\<close>

definition slice_from :: "int \<Rightarrow> 'a list \<Rightarrow> 'a list" where
  "slice_from k rows =
     (if 0 \<le> k then drop (nat k) rows
      else drop (nat (int (length rows) + k)) rows)"

text \<open>
  \<open>random.Random(seed).sample(population, k)\<close> is the library's; the selector takes it
  as a parameter: a function of the seed, the population and \<open>k\<close>.
\<close>

type_synonym sampler = "int \<Rightarrow> gap_row list \<Rightarrow> nat \<Rightarrow> gap_row list"

text \<open>The candidate pool of the random mode, and what is left of it after the offset.\<close>

definition pool_rows :: "index_db \<Rightarrow> args \<Rightarrow> gap_row list" where
  "pool_rows d a =
     sql_limit_offset (pool a) 0 (sort_key (\<lambda>r. - row_gap_miss r) (select_where d a))"



subsection \<open>Specification vocabulary for the selector\<close>

text \<open>
  The selection query: the options the selector reads. Two command lines with the same
  selection query may differ in the database path, the symbol override, the dataset,
  the cache directory and the self-test flag.
\<close>

definition selection_query ::
  "args \<Rightarrow> (string option \<times> string option \<times> string option \<times> int \<times> int)
           \<times> string \<times> int \<times> int \<times> int \<times> int" where
  "selection_query a =
     ((collector a, exchange a, symbol a, min_miss a, min_gap_ms a),
      order a, limit a, offset a, pool a, seed a)"

text \<open>The pool entries that remain after the first \<open>offset\<close> entries are dropped.\<close>

definition remaining_pool :: "index_db \<Rightarrow> args \<Rightarrow> gap_row list" where
  "remaining_pool d a =
     (if offset a \<noteq> 0 then slice_from (offset a) (pool_rows d a) else pool_rows d a)"

text \<open>
  The contract of the library's \<open>sample\<close>: for \<open>k\<close> up to the size of the population it
  returns the elements at \<open>k\<close> distinct positions of the population.
\<close>

definition samples_without_replacement :: "sampler \<Rightarrow> bool" where
  "samples_without_replacement sample =
     (\<forall>s xs k. k \<le> length xs \<longrightarrow>
        (\<exists>js. length js = k \<and> distinct js \<and> (\<forall>j \<in> set js. j < length xs)
           \<and> sample s xs k = map (\<lambda>j. xs ! j) js))"

text \<open>
  A sampler for examples: the first \<open>k\<close> entries of the population rotated by the
  seed.
\<close>

definition rotate_sample :: sampler where
  "rotate_sample s xs k = take k (rotate (nat \<bar>s\<bar>) xs)"

section \<open>Aggregator and reporter\<close>

subsection \<open>Report lines\<close>

text \<open>
  The lines that \<open>main\<close> and \<open>download_zip\<close> print, one constructor for each \<open>print\<close>
  call, with the values the line is formatted from.
\<close>

datatype out_line =
    SelfTestOk
  | MissingSymbol
  | NoGapEvents
  | MissingLine int int string
  | GapSummary int int nat string
  | SkipDays nat
  | SkipMissingDays nat
  | SourceFile int string
  | WindowSummary int int int "int option" "int option"
  | DownloadFailed string string
  | Summary nat nat nat int nat string

definition format_gap_summary :: "int \<Rightarrow> int \<Rightarrow> nat \<Rightarrow> string \<Rightarrow> string" where
  "format_gap_summary gap_id gap_miss total_count ratio =
     ''[id='' @ str_int gap_id @ ''] est_miss='' @ str_int gap_miss
     @ '' binance_trades='' @ str_nat total_count @ '' ratio='' @ ratio"

text \<open>
  \<open>fmt_ts(t) if t is not None else "n/a"\<close>, and the window line. The four timestamps
  are formatted in the order first, last, start, end; the first that is out of range
  raises.
\<close>

definition fmt_ts_opt :: "int option \<Rightarrow> failure + string" where
  "fmt_ts_opt t = (case t of None \<Rightarrow> Inr ''n/a'' | Some v \<Rightarrow> fmt_ts v)"

definition format_window_summary ::
  "int \<Rightarrow> int \<Rightarrow> int \<Rightarrow> int option \<Rightarrow> int option \<Rightarrow> failure + string" where
  "format_window_summary start_ms end_ms gap_ms first_hit last_hit =
     (case fmt_ts_opt first_hit of
        Inl f \<Rightarrow> Inl f
      | Inr first_text \<Rightarrow>
     (case fmt_ts_opt last_hit of
        Inl f \<Rightarrow> Inl f
      | Inr last_text \<Rightarrow>
     (case fmt_ts start_ms of
        Inl f \<Rightarrow> Inl f
      | Inr window_start \<Rightarrow>
     (case fmt_ts end_ms of
        Inl f \<Rightarrow> Inl f
      | Inr window_end \<Rightarrow>
          Inr (''  window='' @ window_start @ '' -> '' @ window_end @ '' UTC ''
               @ ''gap_ms='' @ str_int gap_ms @ '' first='' @ first_text @ '' last='' @ last_text)))))"

text \<open>The text of a line; the window line is there only when its timestamps format.\<close>

fun render_line :: "out_line \<Rightarrow> failure + string" where
  "render_line SelfTestOk = Inr ''self-test ok''"
| "render_line MissingSymbol = Inr ''Missing --symbol or --binance-symbol.''"
| "render_line NoGapEvents = Inr ''No gap events matched the filters.''"
| "render_line (MissingLine gap_id line path) =
     Inr (''[id='' @ str_int gap_id @ ''] missing or unreadable line '' @ str_int line
          @ '' in '' @ path)"
| "render_line (GapSummary gap_id gap_miss total_count ratio) =
     Inr (format_gap_summary gap_id gap_miss total_count ratio)"
| "render_line (SkipDays n) = Inr (''  binance_trades=skip days='' @ str_nat n)"
| "render_line (SkipMissingDays n) = Inr (''  binance_trades=skip missing_days='' @ str_nat n)"
| "render_line (SourceFile line path) =
     Inr (''  source=file line='' @ str_int line @ '' file='' @ path)"
| "render_line (WindowSummary start_ms end_ms gap_ms first_hit last_hit) =
     format_window_summary start_ms end_ms gap_ms first_hit last_hit"
| "render_line (DownloadFailed url exc) =
     Inr (''  download failed: '' @ url @ '' ('' @ exc @ '')'')"
| "render_line (Summary gaps inspected skipped total_est_miss total_binance_trades ratio) =
     Inr (''summary gaps='' @ str_nat gaps @ '' inspected='' @ str_nat inspected
          @ '' skipped='' @ str_nat skipped @ '' total_est_miss='' @ str_int total_est_miss
          @ '' total_binance_trades='' @ str_nat total_binance_trades @ '' ratio='' @ ratio)"

subsection \<open>The environment of a run\<close>

text \<open>
  What a run reads: the index behind each database path, the local files, the
  directory for temporary files, and the remote archives. The sampler is the library's.

  \<^item> \<open>connect\<close> is \<^const>\<open>None\<close> for a database that cannot be opened or that lacks the
    tables \<open>events\<close> and \<open>roots\<close>: \<open>sqlite3.connect\<close> or the first \<open>execute\<close> raises.
  \<^item> \<open>tempdir\<close> is \<^const>\<open>None\<close> when \<open>tempfile.gettempdir()\<close> finds no usable directory
    and raises.
  \<^item> \<open>mkdir\<close> tells whether \<open>mkdir(parents=True, exist_ok=True)\<close> succeeds on a path.
  \<^item> A download fails before the target file is created (\<open>urlopen\<close> raises, or the
    target cannot be opened for writing), or fails after it (\<open>resp.read()\<close> or the
    write raises, and an empty or partial file stays in the cache), or delivers a
    payload.

  The cache is the part of the file system that a run also writes: a map from the path
  of a cached file to its content, which is a zip archive or something that
  \<open>zipfile.ZipFile\<close> refuses with \<open>BadZipFile\<close>. An archive that opens is taken to be
  intact. Printing is taken to succeed, and the cache directory to be searchable once
  it exists.
\<close>

datatype cache_entry = Archive zip_archive | NotAZip

datatype download = OpenFailed string | ReadFailed string | Payload cache_entry

record env =
  connect :: "string \<Rightarrow> index_db option"
  files :: file_system
  tempdir :: "string option"
  mkdir :: "string \<Rightarrow> bool"
  urlopen :: "string \<Rightarrow> download"
  sample :: sampler

type_synonym cache = "string \<Rightarrow> cache_entry option"


text \<open>\<open>url.rsplit("/", 1)[-1]\<close>: the part of the URL after its last slash.\<close>

definition url_basename :: "string \<Rightarrow> string" where
  "url_basename url = rev (takeWhile (\<lambda>c. c \<noteq> CHR ''/'') (rev url))"

text \<open>
  \<open>download_zip\<close> returns the path of the cached file, or \<^const>\<open>None\<close> after a failed
  download; with it the cache after the call and the lines printed.
\<close>

definition download_zip ::
  "env \<Rightarrow> string \<Rightarrow> path \<Rightarrow> cache \<Rightarrow> string option \<times> cache \<times> out_line list" where
  "download_zip E url cdir c =
     (let name = url_basename url;
          target = str_path (truediv cdir (path_of name))
      in if c target \<noteq> None then (Some target, c, [])
         else (case urlopen E url of
                 Payload content \<Rightarrow> (Some target, c(target \<mapsto> content), [])
               | ReadFailed exc \<Rightarrow> (None, c(target \<mapsto> NotAZip), [DownloadFailed url exc])
               | OpenFailed exc \<Rightarrow> (None, c, [DownloadFailed url exc])))"

subsection \<open>The loop over the days of a window\<close>

text \<open>
  The state of the loop. \<open>day_fault\<close> is the exception that ended the loop, if one
  did: \<open>zipfile.ZipFile\<close> raises on a cached file that is no zip archive.
\<close>

record day_state =
  total_count :: nat
  first_hit :: "int option"
  last_hit :: "int option"
  missing_days :: nat
  day_cache :: cache
  day_out :: "out_line list"
  day_fault :: "failure option"

text \<open>\<open>a is not None and b is not None and a < b\<close> on optional timestamps.\<close>

definition opt_less :: "int option \<Rightarrow> int option \<Rightarrow> bool" where
  "opt_less a b = (case (a, b) of (Some x, Some y) \<Rightarrow> x < y | _ \<Rightarrow> False)"

fun day_loop ::
  "env \<Rightarrow> dataset \<Rightarrow> string \<Rightarrow> path \<Rightarrow> int \<Rightarrow> int \<Rightarrow> string list \<Rightarrow> day_state \<Rightarrow> day_state"
  where
  "day_loop E ds binance_sym cdir start_ms end_ms [] st = st"
| "day_loop E ds binance_sym cdir start_ms end_ms (day # rest) st =
     (let url = dataset_url ds binance_sym day
      in case download_zip E url cdir (day_cache st) of
           (None, c, printed) \<Rightarrow>
             day_loop E ds binance_sym cdir start_ms end_ms rest
               (st\<lparr>missing_days := missing_days st + 1, day_cache := c,
                   day_out := day_out st @ printed\<rparr>)
         | (Some zip_path, c, printed) \<Rightarrow>
             (case c zip_path of
                Some (Archive zf) \<Rightarrow>
                  (case scan_zip_for_window zf start_ms end_ms (DATASET_TS_INDEX ds) of
                     (count, first_ts, last_ts) \<Rightarrow>
                       day_loop E ds binance_sym cdir start_ms end_ms rest
                         (st\<lparr>total_count := total_count st + count,
                             first_hit :=
                               (if count \<noteq> 0
                                   \<and> (first_hit st = None \<or> opt_less first_ts (first_hit st))
                                then first_ts else first_hit st),
                             last_hit :=
                               (if count \<noteq> 0
                                   \<and> (last_hit st = None \<or> opt_less (last_hit st) last_ts)
                                then last_ts else last_hit st),
                             day_cache := c,
                             day_out := day_out st @ printed\<rparr>))
              | _ \<Rightarrow>
                  st\<lparr>day_cache := c, day_out := day_out st @ printed,
                     day_fault := Some BadZipFile\<rparr>))"

subsection \<open>The loop over the selected gaps\<close>

text \<open>
  The state of the loop: the four counters, the cache, the lines printed so far, and
  the exception that ended the loop, if one did.
\<close>

record run_state =
  inspected :: nat
  skipped :: nat
  total_est_miss :: int
  total_binance_trades :: nat
  run_cache :: cache
  run_out :: "out_line list"
  run_fault :: "failure option"

text \<open>
  The first lines of the loop body: the end timestamp of the gap is \<open>gap_end_ts\<close> when
  the row has one, else the timestamp read from line \<open>start_line\<close> of the file. The
  result is the file path (set only on the second way) and the timestamp, or the
  exception of the read.
\<close>

definition resolve_end_ts :: "env \<Rightarrow> gap_row \<Rightarrow> failure + path option \<times> int option" where
  "resolve_end_ts E row =
     (case row_gap_end_ts row of
        Some ts \<Rightarrow> Inr (None, Some ts)
      | None \<Rightarrow>
          (let file_path = resolve_file_path (row_root_path row) (row_relative_path row)
           in case read_line_timestamp (files E) file_path (row_start_line row) of
                Inl f \<Rightarrow> Inl f
              | Inr ts \<Rightarrow> Inr (Some file_path, ts)))"

text \<open>
  The body of the loop \<open>for row in rows\<close>; each \<open>continue\<close> ends a branch, and so does
  each exception, with the lines printed before it.
\<close>

definition gap_body :: "env \<Rightarrow> args \<Rightarrow> string \<Rightarrow> path \<Rightarrow> run_state \<Rightarrow> gap_row \<Rightarrow> run_state"
  where
  "gap_body E a binance_sym cdir st row =
     (case resolve_end_ts E row of
        Inl f \<Rightarrow> st\<lparr>run_fault := Some f\<rparr>
      | Inr (file_path, None) \<Rightarrow>
          st\<lparr>run_out := run_out st @
               [MissingLine (row_id row) (row_start_line row)
                  (str_path (case file_path of
                     Some p \<Rightarrow> p
                   | None \<Rightarrow> resolve_file_path (row_root_path row) (row_relative_path row)))]\<rparr>
      | Inr (file_path, Some ts) \<Rightarrow>
          (let gap_ms = row_gap_ms row;
               gap_miss = row_gap_miss row;
               start_ms = ts - gap_ms;
               end_ms = ts
           in case iter_dates start_ms end_ms of
                Inl f \<Rightarrow> st\<lparr>run_fault := Some f\<rparr>
              | Inr dates \<Rightarrow>
           if length dates > 3
           then st\<lparr>skipped := skipped st + 1,
                   run_out := run_out st @
                     [GapSummary (row_id row) gap_miss 0 ''n/a'', SkipDays (length dates)]\<rparr>
           else
             let days = day_loop E (dataset a) binance_sym cdir start_ms end_ms dates
                   \<lparr>total_count = 0, first_hit = None, last_hit = None, missing_days = 0,
                    day_cache = run_cache st, day_out = run_out st, day_fault = None\<rparr>
             in case day_fault days of
                  Some f \<Rightarrow>
                    st\<lparr>run_cache := day_cache days, run_out := day_out days,
                       run_fault := Some f\<rparr>
                | None \<Rightarrow>
             if missing_days days \<noteq> 0
             then st\<lparr>skipped := skipped st + 1,
                     run_cache := day_cache days,
                     run_out := day_out days @
                       [GapSummary (row_id row) gap_miss 0 ''n/a'',
                        SkipMissingDays (missing_days days)]\<rparr>
             else
               case fmt_ratio (int (total_count days)) gap_miss of
                 Inl f \<Rightarrow>
                   st\<lparr>run_cache := day_cache days, run_out := day_out days,
                      run_fault := Some f\<rparr>
               | Inr ratio \<Rightarrow>
               let printed = day_out days
                     @ [GapSummary (row_id row) gap_miss (total_count days) ratio]
                     @ (case (row_gap_end_ts row, file_path) of
                          (None, Some p) \<Rightarrow> [SourceFile (row_start_line row) (str_path p)]
                        | _ \<Rightarrow> [])
               in case format_window_summary start_ms end_ms gap_ms
                         (first_hit days) (last_hit days) of
                    Inl f \<Rightarrow>
                      st\<lparr>run_cache := day_cache days, run_out := printed,
                         run_fault := Some f\<rparr>
                  | Inr window_line \<Rightarrow>
                      st\<lparr>inspected := inspected st + 1,
                         total_est_miss := total_est_miss st + gap_miss,
                         total_binance_trades := total_binance_trades st + total_count days,
                         run_cache := day_cache days,
                         run_out := printed @
                           [WindowSummary start_ms end_ms gap_ms
                              (first_hit days) (last_hit days)]\<rparr>))"


subsection \<open>The program\<close>





subsection \<open>Specification vocabulary for a run\<close>

text \<open>
  The terminal outcome of one gap, as the specification names it: inspected, with the
  reference total and the ratio, or skipped for one of three reasons. The
  specification has no name for the gap at which an exception ends the run; here it
  is aborted.
\<close>

datatype skip_reason = UnresolvableTimestamp | WindowTooLarge | MissingDays

datatype outcome = Inspected nat string | Skipped skip_reason | Aborted failure

fun is_inspected :: "outcome \<Rightarrow> bool" where
  "is_inspected (Inspected n r) = True"
| "is_inspected (Skipped r) = False"
| "is_inspected (Aborted f) = False"

fun is_aborted :: "outcome \<Rightarrow> bool" where
  "is_aborted (Aborted f) = True"
| "is_aborted (Inspected n r) = False"
| "is_aborted (Skipped r) = False"

fun reference_total :: "outcome \<Rightarrow> nat" where
  "reference_total (Inspected n r) = n"
| "reference_total (Skipped r) = 0"
| "reference_total (Aborted f) = 0"

text \<open>
  The loop over the days of a gap that is processed in state \<open>st\<close>, with end timestamp
  \<open>ts\<close> and days \<open>dates\<close>: the state in which that loop ends.
\<close>

definition gap_days ::
  "env \<Rightarrow> args \<Rightarrow> string \<Rightarrow> path \<Rightarrow> run_state \<Rightarrow> gap_row \<Rightarrow> int \<Rightarrow> string list \<Rightarrow> day_state"
  where
  "gap_days E a binance_sym cdir st row ts dates =
     day_loop E (dataset a) binance_sym cdir (ts - row_gap_ms row) ts dates
       \<lparr>total_count = 0, first_hit = None, last_hit = None, missing_days = 0,
        day_cache = run_cache st, day_out = run_out st, day_fault = None\<rparr>"

text \<open>
  The outcome of a gap that is processed in state \<open>st\<close>: the path through the loop body
  that the row takes there.
\<close>

definition gap_outcome ::
  "env \<Rightarrow> args \<Rightarrow> string \<Rightarrow> path \<Rightarrow> run_state \<Rightarrow> gap_row \<Rightarrow> outcome" where
  "gap_outcome E a binance_sym cdir st row =
     (case resolve_end_ts E row of
        Inl f \<Rightarrow> Aborted f
      | Inr (file_path, None) \<Rightarrow> Skipped UnresolvableTimestamp
      | Inr (file_path, Some ts) \<Rightarrow>
          (case iter_dates (ts - row_gap_ms row) ts of
             Inl f \<Rightarrow> Aborted f
           | Inr dates \<Rightarrow>
           if length dates > 3 then Skipped WindowTooLarge
           else
             let days = gap_days E a binance_sym cdir st row ts dates
             in case day_fault days of
                  Some f \<Rightarrow> Aborted f
                | None \<Rightarrow>
             if missing_days days \<noteq> 0 then Skipped MissingDays
             else
               case fmt_ratio (int (total_count days)) (row_gap_miss row) of
                 Inl f \<Rightarrow> Aborted f
               | Inr ratio \<Rightarrow>
               (case format_window_summary (ts - row_gap_ms row) ts (row_gap_ms row)
                       (first_hit days) (last_hit days) of
                  Inl f \<Rightarrow> Aborted f
                | Inr window_line \<Rightarrow> Inspected (total_count days) ratio)))"

text \<open>
  The outcomes of the gaps of a run, each with its row, in the order of the run; an
  aborted gap is the last.
\<close>

fun run_outcomes ::
  "env \<Rightarrow> args \<Rightarrow> string \<Rightarrow> path \<Rightarrow> gap_row list \<Rightarrow> run_state \<Rightarrow> (gap_row \<times> outcome) list"
  where
  "run_outcomes E a binance_sym cdir [] st = []"
| "run_outcomes E a binance_sym cdir (row # rest) st =
     (row, gap_outcome E a binance_sym cdir st row)
     # (if is_aborted (gap_outcome E a binance_sym cdir st row) then []
        else run_outcomes E a binance_sym cdir rest (gap_body E a binance_sym cdir st row))"

text \<open>
  The totals over the inspected outcomes, and the ratio of the summary line that they
  give.
\<close>

definition inspected_reference :: "(gap_row \<times> outcome) list \<Rightarrow> nat" where
  "inspected_reference ocs =
     sum_list (map (\<lambda>(row, oc). reference_total oc) (filter (\<lambda>(row, oc). is_inspected oc) ocs))"

definition inspected_miss :: "(gap_row \<times> outcome) list \<Rightarrow> int" where
  "inspected_miss ocs =
     sum_list (map (\<lambda>(row, oc). row_gap_miss row) (filter (\<lambda>(row, oc). is_inspected oc) ocs))"

definition run_ratio :: "(gap_row \<times> outcome) list \<Rightarrow> failure + string" where
  "run_ratio ocs = fmt_ratio (int (inspected_reference ocs)) (inspected_miss ocs)"

text \<open>The state in which the loop over the gaps starts.\<close>

definition initial_state :: "cache \<Rightarrow> run_state" where
  "initial_state c =
     \<lparr>inspected = 0, skipped = 0, total_est_miss = 0, total_binance_trades = 0,
      run_cache = c, run_out = [], run_fault = None\<rparr>"

text \<open>The summary line of a report, and the lines of a report that are summary lines.\<close>

fun is_summary :: "out_line \<Rightarrow> bool" where
  "is_summary (Summary g i s m t r) = True"
| "is_summary other = False"

definition summary_lines :: "out_line list \<Rightarrow> out_line list" where
  "summary_lines out = filter is_summary out"

section \<open>A small example run\<close>

text \<open>
  An index with one root and two gap events. Event 7 has no \<open>gap_end_ts\<close>, and its
  backing file is the only file of \<open>example_files\<close>, where line 2 is blank and line 3
  starts with a timestamp. Event 8 carries its end timestamp and spans four days.
\<close>

definition example_events :: "event list" where
  "example_events =
     [\<lparr>ev_id = 7, ev_root_id = 1, ev_relative_path = ''BTCUSDT/2021-08-13-23.gz'',
       ev_collector = Some ''RAM'', ev_exchange = Some ''BINANCE'', ev_symbol = Some ''btcusdt'',
       ev_event_type = ''gap'', ev_start_line = 3, ev_end_line = 4,
       ev_gap_ms = Some 60000, ev_gap_miss = Some 20, ev_gap_end_ts = None\<rparr>,
      \<lparr>ev_id = 8, ev_root_id = 1, ev_relative_path = ''BTCUSDT/2021-08-14-00.gz'',
       ev_collector = Some ''RAM'', ev_exchange = Some ''BINANCE'', ev_symbol = Some ''btcusdt'',
       ev_event_type = ''gap'', ev_start_line = 10, ev_end_line = 11,
       ev_gap_ms = Some 345600000, ev_gap_miss = Some 900,
       ev_gap_end_ts = Some 1628899260000\<rparr>]"

definition example_index :: index_db where
  "example_index =
     \<lparr>roots = (\<lambda>i. if i = 1 then Some ''/data/binance'' else None),
      events = example_events\<rparr>"

definition empty_index :: index_db where
  "empty_index = \<lparr>roots = (\<lambda>i. None), events = []\<rparr>"

text \<open>
  An index with event 8 and an event 9 whose \<open>gap_end_ts\<close> is in microseconds, which
  is outside the range of \<open>datetime\<close>.
\<close>

definition micro_index :: index_db where
  "micro_index =
     \<lparr>roots = (\<lambda>i. if i = 1 then Some ''/data/binance'' else None),
      events =
        [example_events ! 1,
         \<lparr>ev_id = 9, ev_root_id = 1, ev_relative_path = ''BTCUSDT/2021-08-14-01.gz'',
          ev_collector = Some ''RAM'', ev_exchange = Some ''BINANCE'',
          ev_symbol = Some ''btcusdt'', ev_event_type = ''gap'', ev_start_line = 20,
          ev_end_line = 21, ev_gap_ms = Some 60000, ev_gap_miss = Some 20,
          ev_gap_end_ts = Some 1628899260000000\<rparr>]\<rparr>"

text \<open>
  The gzip file of event 7; a file named \<open>.gz\<close>, which has no suffix; a plain text
  file; a gzip file that is cut off after its first line; and a directory.
\<close>

definition example_file :: text_file where
  "example_file =
     \<lparr>plain_read = \<lparr>stream_lines = [''\<newline>''], stream_fails = False\<rparr>,
      gunzip_read =
        \<lparr>stream_lines =
           [''1628899100000 65.5 0.1 1\<newline>'', '' \<newline>'',
            ''1628899260000 65.7 0.2 0\<newline>'', ''time price size side\<newline>''],
         stream_fails = False\<rparr>\<rparr>"

definition plain_file :: text_file where
  "plain_file =
     \<lparr>plain_read = \<lparr>stream_lines = [''1628899000000 65.4 0.3 1\<newline>''], stream_fails = False\<rparr>,
      gunzip_read = \<lparr>stream_lines = [], stream_fails = True\<rparr>\<rparr>"

definition cut_file :: text_file where
  "cut_file =
     \<lparr>plain_read = \<lparr>stream_lines = [''\<newline>''], stream_fails = False\<rparr>,
      gunzip_read =
        \<lparr>stream_lines = [''1628899100000 65.5 0.1 1\<newline>''], stream_fails = True\<rparr>\<rparr>"

definition example_files :: file_system where
  "example_files p =
     (if p = ''/data/binance/BTCUSDT/2021-08-13-23.gz'' then TextFile example_file
      else if p = ''/data/binance/BTCUSDT/.gz'' then TextFile plain_file
      else if p = ''/data/binance/BTCUSDT/2021-08-13-22'' then TextFile plain_file
      else if p = ''/data/binance/BTCUSDT/2021-08-13-21.gz'' then TextFile cut_file
      else if p = ''/data/binance/BTCUSDT'' then CannotOpen
      else NoSuchFile)"

text \<open>
  An environment without local files, in which every download fails; the database
  \<open>index.sqlite\<close> is the example index, \<open>other.sqlite\<close> is an index without events,
  \<open>micro.sqlite\<close> is the index with the timestamp in microseconds, and any other path
  has no index.
\<close>

definition example_env :: env where
  "example_env =
     \<lparr>connect = (\<lambda>p. if p = ''index.sqlite'' then Some example_index
                     else if p = ''other.sqlite'' then Some empty_index
                     else if p = ''micro.sqlite'' then Some micro_index else None),
      files = (\<lambda>p. NoSuchFile),
      tempdir = Some ''/tmp'',
      mkdir = (\<lambda>p. True),
      urlopen = (\<lambda>u. OpenFailed ''HTTP Error 404: Not Found''),
      sample = rotate_sample\<rparr>"

definition empty_cache :: cache where
  "empty_cache = (\<lambda>p. None)"

text \<open>The default command line with \<open>--symbol btcusdt --binance-symbol BTCUSDT\<close>.\<close>

definition example_args :: args where
  "example_args =
     \<lparr>db = ''index.sqlite'', collector = None, exchange = None, symbol = Some ''btcusdt'',
      binance_symbol = Some ''BTCUSDT'', dataset = SpotTrades, limit = 5, min_miss = 0,
      min_gap_ms = 0, order = ''random'', offset = 0, pool = 1000, seed = 1337,
      cache_dir = None, self_test = False\<rparr>"

text \<open>
  The command line \<open>--db micro.sqlite --symbol btcusdt --binance-symbol BTCUSDT --order
  gap_miss\<close>.
\<close>

definition micro_args :: args where
  "micro_args = example_args\<lparr>db := ''micro.sqlite'', order := ''gap_miss''\<rparr>"

text \<open>The two result rows of the example index, and the second row of the other one.\<close>

definition row7 :: gap_row where
  "row7 =
     \<lparr>row_id = 7, row_root_id = 1, row_root_path = ''/data/binance'',
      row_relative_path = ''BTCUSDT/2021-08-13-23.gz'', row_collector = Some ''RAM'',
      row_exchange = Some ''BINANCE'', row_symbol = Some ''btcusdt'', row_start_line = 3,
      row_end_line = 4, row_gap_ms = 60000, row_gap_miss = 20, row_gap_end_ts = None\<rparr>"

definition row8 :: gap_row where
  "row8 =
     \<lparr>row_id = 8, row_root_id = 1, row_root_path = ''/data/binance'',
      row_relative_path = ''BTCUSDT/2021-08-14-00.gz'', row_collector = Some ''RAM'',
      row_exchange = Some ''BINANCE'', row_symbol = Some ''btcusdt'', row_start_line = 10,
      row_end_line = 11, row_gap_ms = 345600000, row_gap_miss = 900,
      row_gap_end_ts = Some 1628899260000\<rparr>"


definition row9 :: gap_row where
  "row9 =
     \<lparr>row_id = 9, row_root_id = 1, row_root_path = ''/data/binance'',
      row_relative_path = ''BTCUSDT/2021-08-14-01.gz'', row_collector = Some ''RAM'',
      row_exchange = Some ''BINANCE'', row_symbol = Some ''btcusdt'', row_start_line = 20,
      row_end_line = 21, row_gap_ms = 60000, row_gap_miss = 20,
      row_gap_end_ts = Some 1628899260000000\<rparr>"

text \<open>The cache directory of the example run.\<close>

definition example_cache_dir :: path where
  "example_cache_dir = \<lparr>path_anchor = ''/'', path_parts = [''tmp'', ''aggr-binaries-binance-vision'']\<rparr>"
section \<open>Properties of the window scanner\<close>

lemma scan_rows_step:
  "scan_rows s e i (c, f, l) (line # rest) =
     (case row_ts i line of
        None \<Rightarrow> scan_rows s e i (c, f, l) rest
      | Some ts \<Rightarrow>
          if ts < s then scan_rows s e i (c, f, l) rest
          else if ts > e then (c, f, l)
          else scan_rows s e i (c + 1, (if f = None then Some ts else f), Some ts) rest)"
  by (simp add: row_ts_def Let_def)

lemma row_timestamps_Cons:
  "row_timestamps i (line # rest) =
     (case row_ts i line of
        None \<Rightarrow> row_timestamps i rest
      | Some t \<Rightarrow> t # row_timestamps i rest)"
  by (simp add: row_timestamps_def List.map_filter_simps split: option.splits)

lemma row_timestamps_set:
  "set (row_timestamps i rows) = {t. \<exists>line \<in> set rows. row_ts i line = Some t}"
  by (force simp: row_timestamps_def List.map_filter_def image_iff)

lemma scan_rows_hits:
  "scan_rows s e i (c, f, l) rows =
     (let hs = window_hits s e (row_timestamps i rows)
      in (c + length hs,
          (if f = None \<and> hs \<noteq> [] then Some (hd hs) else f),
          (if hs = [] then l else Some (last hs))))"
proof (induction rows arbitrary: c f l)
  case Nil
  then show ?case
    by (simp add: row_timestamps_def window_hits_def List.map_filter_simps)
next
  case (Cons line rest)
  show ?case
  proof (cases "row_ts i line")
    case None
    then show ?thesis
      using Cons.IH [of c f l]
      by (simp only: scan_rows_step row_timestamps_Cons option.case)
  next
    case (Some t)
    then show ?thesis
      using Cons.IH [of c f l] Cons.IH [of "c + 1" "if f = None then Some t else f" "Some t"]
      by (simp only: scan_rows_step row_timestamps_Cons option.case)
         (auto simp: window_hits_def Let_def)
  qed
qed

lemma scan_rows_summary:
  "scan_rows s e i (0, None, None) rows =
     hits_summary (window_hits s e (row_timestamps i rows))"
  by (simp add: scan_rows_hits hits_summary_def Let_def)

lemma scan_zip_summary:
  "scan_zip_for_window zf s e i =
     (case scanned_member zf of
        None \<Rightarrow> (0, None, None)
      | Some rows \<Rightarrow> hits_summary (window_hits s e (row_timestamps i rows)))"
  by (simp add: scan_zip_for_window_def scanned_member_def scan_rows_summary Let_def
           split: list.splits option.splits)

lemma window_hits_bounds:
  "t \<in> set (window_hits s e tss) \<Longrightarrow> t \<in> set tss \<and> s \<le> t \<and> t \<le> e"
  unfolding window_hits_def by (auto dest: set_takeWhileD)

lemma window_hits_order:
  "s \<le> e \<Longrightarrow>
   window_hits s e tss = filter (\<lambda>t. s \<le> t) (takeWhile (\<lambda>t. t < s \<or> t \<le> e) tss)"
  unfolding window_hits_def by (induction tss) auto

lemma zip_open_listed: "n \<in> set (namelist zf) \<Longrightarrow> zip_open zf n \<noteq> None"
  by (simp add: zip_open_def namelist_def map_of_eq_None_iff)

lemma scanned_member_None:
  "scanned_member zf = None \<longleftrightarrow> filter (\<lambda>n. \<not> endswith n ''/'') (namelist zf) = []"
proof (cases "filter (\<lambda>n. \<not> endswith n ''/'') (namelist zf)")
  case Nil
  then show ?thesis by (simp add: scanned_member_def)
next
  case (Cons n ns)
  then have "n \<in> set (filter (\<lambda>n. \<not> endswith n ''/'') (namelist zf))" by simp
  then have "n \<in> set (namelist zf)" by simp
  then show ?thesis
    using Cons zip_open_listed [of n zf] by (simp add: scanned_member_def)
qed

lemma example_row_ts:
  "map (row_ts 4) example_rows = [Some 100, Some 200, Some 300, Some 400]"
  by code_simp

lemma example_scan:
  "scan_rows 150 350 4 (0, None, None) (example_rows @ later_rows) = (2, Some 200, Some 300)"
proof -
  have ts: "row_ts 4 (example_rows ! 0) = Some 100" "row_ts 4 (example_rows ! 1) = Some 200"
    "row_ts 4 (example_rows ! 2) = Some 300" "row_ts 4 (example_rows ! 3) = Some 400"
    by code_simp+
  have rows: "example_rows @ later_rows =
      example_rows ! 0 # example_rows ! 1 # example_rows ! 2 # example_rows ! 3 # later_rows"
    by (simp add: example_rows_def)
  show ?thesis
    unfolding rows by (simp only: scan_rows_step ts option.case) simp
qed

text \<open>
  Claim C6. The scanner reads the rows of the scanned member in file order. A row with
  too few fields or with a timestamp field that does not parse carries no timestamp
  and is skipped; a row with a timestamp below the window start is skipped; at the
  first row with a timestamp above the end of the (inclusive) window the scan stops and
  no later row matters; every other row is counted, is the last hit, and is the first
  hit when there was none. So the result is the summary of the hits. On rows with the
  timestamps 100, 200, 300, 400 and the window 150 to 350 the result is count 2, first
  hit 200, last hit 300, whatever rows follow the row with 400.
\<close>

theorem scan_zip_for_window_rows:
  "(scanned_member zf = Some rows \<longrightarrow>
      scan_zip_for_window zf s e i = scan_rows s e i (0, None, None) rows)
   \<and> (length (split_on CHR '','' (rstrip line)) \<le> i \<longrightarrow> row_ts i line = None)
   \<and> (i < length (split_on CHR '','' (rstrip line)) \<longrightarrow>
        row_ts i line = py_int (split_on CHR '','' (rstrip line) ! i))
   \<and> (row_ts i line = None \<longrightarrow>
        scan_rows s e i st (line # rest) = scan_rows s e i st rest)
   \<and> (row_ts i line = Some t \<and> t < s \<longrightarrow>
        scan_rows s e i st (line # rest) = scan_rows s e i st rest)
   \<and> (row_ts i line = Some t \<and> s \<le> e \<and> e < t \<longrightarrow>
        scan_rows s e i st (line # rest) = st)
   \<and> (row_ts i line = Some t \<and> s \<le> t \<and> t \<le> e \<longrightarrow>
        scan_rows s e i (c, f, l) (line # rest) =
        scan_rows s e i (c + 1, (if f = None then Some t else f), Some t) rest)
   \<and> scan_rows s e i (0, None, None) rows =
        hits_summary (window_hits s e (row_timestamps i rows))
   \<and> scan_zip_for_window [(''BTCUSDT-trades-2021-08-13.csv'', example_rows @ later_rows)] 150 350 4 =
        (2, Some 200, Some 300)"
proof -
  obtain c0 f0 l0 where st: "st = (c0, f0, l0)" by (cases st) auto
  have member: "scanned_member zf = Some rows \<longrightarrow>
      scan_zip_for_window zf s e i = scan_rows s e i (0, None, None) rows"
    by (simp add: scan_zip_summary scan_rows_summary)
  have short: "length (split_on CHR '','' (rstrip line)) \<le> i \<longrightarrow> row_ts i line = None"
    by (simp add: row_ts_def)
  have field: "i < length (split_on CHR '','' (rstrip line)) \<longrightarrow>
      row_ts i line = py_int (split_on CHR '','' (rstrip line) ! i)"
    by (simp add: row_ts_def)
  have skip: "row_ts i line = None \<longrightarrow>
      scan_rows s e i st (line # rest) = scan_rows s e i st rest"
    unfolding st by (simp only: scan_rows_step) simp
  have below: "row_ts i line = Some t \<and> t < s \<longrightarrow>
      scan_rows s e i st (line # rest) = scan_rows s e i st rest"
    unfolding st by (simp only: scan_rows_step) simp
  have above: "row_ts i line = Some t \<and> s \<le> e \<and> e < t \<longrightarrow>
      scan_rows s e i st (line # rest) = st"
    unfolding st by (simp only: scan_rows_step) simp
  have inside: "row_ts i line = Some t \<and> s \<le> t \<and> t \<le> e \<longrightarrow>
      scan_rows s e i (c, f, l) (line # rest) =
      scan_rows s e i (c + 1, (if f = None then Some t else f), Some t) rest"
    by (simp only: scan_rows_step) simp
  have ex: "scan_zip_for_window [(''BTCUSDT-trades-2021-08-13.csv'', example_rows @ later_rows)] 150 350 4 =
      (2, Some 200, Some 300)"
    by (simp add: scan_zip_for_window_def namelist_def zip_open_def endswith_def example_scan)
  show ?thesis
    using member short field skip below above inside scan_rows_summary [of s e i rows] ex
    by blast
qed

theorem scan_zip_for_window_rows_witness:
  "scanned_member [(''t.csv'', example_rows)] = Some example_rows
   \<and> scan_zip_for_window [(''t.csv'', example_rows)] 150 350 4 =
       scan_rows 150 350 4 (0, None, None) example_rows
   \<and> length (split_on CHR '','' (rstrip ''7,8\<newline>'')) \<le> 4
   \<and> row_ts 4 ''7,8\<newline>'' = None
   \<and> 4 < length (split_on CHR '','' (rstrip (example_rows ! 1)))
   \<and> row_ts 4 (example_rows ! 1) = py_int (split_on CHR '','' (rstrip (example_rows ! 1)) ! 4)
   \<and> scan_rows 150 350 4 (1, Some 160, Some 160) (''7,8\<newline>'' # example_rows) =
       scan_rows 150 350 4 (1, Some 160, Some 160) example_rows
   \<and> row_ts 4 (example_rows ! 0) = Some 100 \<and> (100 :: int) < 150
   \<and> scan_rows 150 350 4 (0, None, None) (example_rows ! 0 # tl example_rows) =
       scan_rows 150 350 4 (0, None, None) (tl example_rows)
   \<and> row_ts 4 (example_rows ! 3) = Some 400 \<and> (150 :: int) \<le> 350 \<and> (350 :: int) < 400
   \<and> scan_rows 150 350 4 (2, Some 200, Some 300) (example_rows ! 3 # example_rows) =
       (2, Some 200, Some 300)
   \<and> row_ts 4 (example_rows ! 1) = Some 200 \<and> (150 :: int) \<le> 200 \<and> (200 :: int) \<le> 350
   \<and> scan_rows 150 350 4 (0, None, None) (example_rows ! 1 # []) =
       scan_rows 150 350 4 (0 + 1, (if (None :: int option) = None then Some 200 else None), Some 200) []"
proof -
  have m: "scanned_member [(''t.csv'', example_rows)] = Some example_rows"
    by (simp add: scanned_member_def namelist_def zip_open_def endswith_def)
  have short: "length (split_on CHR '','' (rstrip ''7,8\<newline>'')) \<le> 4"
    by code_simp
  have none: "row_ts 4 ''7,8\<newline>'' = None"
    by code_simp
  have long: "4 < length (split_on CHR '','' (rstrip (example_rows ! 1)))"
    by code_simp
  have t0: "row_ts 4 (example_rows ! 0) = Some 100 \<and> (100 :: int) < 150"
    by code_simp
  have t3: "row_ts 4 (example_rows ! 3) = Some 400 \<and> (150 :: int) \<le> 350 \<and> (350 :: int) < 400"
    by code_simp
  have t1: "row_ts 4 (example_rows ! 1) = Some 200 \<and> (150 :: int) \<le> 200 \<and> (200 :: int) \<le> 350"
    by code_simp
  note a = scan_zip_for_window_rows [where zf = "[(''t.csv'', example_rows)]"
      and rows = example_rows and s = 150 and e = 350 and i = 4
      and line = "''7,8\<newline>''" and st = "(1, Some 160, Some 160)" and rest = example_rows]
  note b = scan_zip_for_window_rows [where i = 4 and line = "example_rows ! 1"]
  note c = scan_zip_for_window_rows [where s = 150 and e = 350 and i = 4
      and line = "example_rows ! 0" and st = "(0, None, None)"
      and rest = "tl example_rows" and t = 100]
  note d = scan_zip_for_window_rows [where s = 150 and e = 350 and i = 4
      and line = "example_rows ! 3" and st = "(2, Some 200, Some 300)"
      and rest = example_rows and t = 400]
  note e = scan_zip_for_window_rows [where s = 150 and e = 350 and i = 4
      and line = "example_rows ! 1" and rest = "[]" and t = 200
      and c = 0 and f = None and l = None]
  have p1: "scan_zip_for_window [(''t.csv'', example_rows)] 150 350 4 =
      scan_rows 150 350 4 (0, None, None) example_rows"
    using a m by blast
  have p2: "scan_rows 150 350 4 (1, Some 160, Some 160) (''7,8\<newline>'' # example_rows) =
      scan_rows 150 350 4 (1, Some 160, Some 160) example_rows"
    using a none by blast
  have p3: "row_ts 4 (example_rows ! 1) = py_int (split_on CHR '','' (rstrip (example_rows ! 1)) ! 4)"
    using b long by blast
  have p4: "scan_rows 150 350 4 (0, None, None) (example_rows ! 0 # tl example_rows) =
      scan_rows 150 350 4 (0, None, None) (tl example_rows)"
    using c t0 by blast
  have p5: "scan_rows 150 350 4 (2, Some 200, Some 300) (example_rows ! 3 # example_rows) =
      (2, Some 200, Some 300)"
    using d t3 by blast
  have p6: "scan_rows 150 350 4 (0, None, None) (example_rows ! 1 # []) =
      scan_rows 150 350 4 (0 + 1, (if (None :: int option) = None then Some 200 else None), Some 200) []"
    using e t1 by blast
  show ?thesis
    using m short none long t0 t3 t1 p1 p2 p3 p4 p5 p6 by blast
qed

text \<open>
  Claim C10. In the result of a scan the count is zero exactly when there is no first
  hit, and exactly when there is no last hit; when the count is positive, the first
  and the last hit are timestamps of rows of the scanned member and lie inside the
  inclusive window.
\<close>

theorem scan_zip_for_window_consistent:
  assumes "scan_zip_for_window zf s e i = (cnt, first_seen, last_seen)"
  shows "(cnt = 0 \<longleftrightarrow> first_seen = None) \<and> (cnt = 0 \<longleftrightarrow> last_seen = None)
     \<and> (0 < cnt \<longrightarrow>
          (\<exists>rows t1 t2. scanned_member zf = Some rows
             \<and> first_seen = Some t1 \<and> last_seen = Some t2
             \<and> (\<exists>r \<in> set rows. row_ts i r = Some t1)
             \<and> (\<exists>r \<in> set rows. row_ts i r = Some t2)
             \<and> s \<le> t1 \<and> t1 \<le> e \<and> s \<le> t2 \<and> t2 \<le> e))"
proof (cases "scanned_member zf")
  case None
  then show ?thesis using assms by (simp add: scan_zip_summary)
next
  case (Some rows)
  define hs where "hs = window_hits s e (row_timestamps i rows)"
  have res: "(cnt, first_seen, last_seen) = hits_summary hs"
    using assms Some by (simp add: scan_zip_summary hs_def)
  show ?thesis
  proof (cases "hs = []")
    case True
    then show ?thesis using res by (simp add: hits_summary_def)
  next
    case False
    then have "hd hs \<in> set hs" "last hs \<in> set hs" by simp_all
    then have b: "hd hs \<in> set (row_timestamps i rows) \<and> s \<le> hd hs \<and> hd hs \<le> e"
        "last hs \<in> set (row_timestamps i rows) \<and> s \<le> last hs \<and> last hs \<le> e"
      using window_hits_bounds [of _ s e "row_timestamps i rows"] by (simp_all add: hs_def)
    have "\<exists>r \<in> set rows. row_ts i r = Some (hd hs)" "\<exists>r \<in> set rows. row_ts i r = Some (last hs)"
      using b by (simp_all add: row_timestamps_set)
    then show ?thesis
      using res False b Some by (auto simp: hits_summary_def)
  qed
qed

theorem scan_zip_for_window_consistent_witness:
  "scan_zip_for_window [(''t.csv'', example_rows)] 150 350 4 = (2, Some 200, Some 300)
   \<and> (0 :: nat) < 2
   \<and> (\<exists>rows t1 t2. scanned_member [(''t.csv'', example_rows)] = Some rows
         \<and> Some (200 :: int) = Some t1 \<and> Some (300 :: int) = Some t2
         \<and> (\<exists>r \<in> set rows. row_ts 4 r = Some t1)
         \<and> (\<exists>r \<in> set rows. row_ts 4 r = Some t2)
         \<and> 150 \<le> t1 \<and> t1 \<le> 350 \<and> 150 \<le> t2 \<and> t2 \<le> 350)"
proof -
  have r: "scan_zip_for_window [(''t.csv'', example_rows)] 150 350 4 = (2, Some 200, Some 300)"
    using example_scan [of "[]"]
    by (simp add: scan_zip_for_window_def namelist_def zip_open_def endswith_def)
  show ?thesis
    using r scan_zip_for_window_consistent [OF r] by simp
qed

section \<open>Properties of the calendar and the window decomposer\<close>



lemma mod_unique_int: "0 \<le> r \<Longrightarrow> r < k \<Longrightarrow> (k * q + r) mod k = (r :: int)"
  by (rule int_mod_pos_eq [where q = q]) simp_all













lemma str_nat_nonempty: "str_nat n \<noteq> []"
  by (subst str_nat.simps) simp











lemma zero_pad_nonempty: "zero_pad w n \<noteq> []"
  using str_nat_nonempty [of n] by (simp add: zero_pad_def)
















section \<open>Properties of the ratio formatting\<close>

subsection \<open>Rounding and the binary logarithm\<close>







subsection \<open>The digits of the result\<close>




subsection \<open>Accuracy of the division and of the formatting\<close>














subsection \<open>The overflow of the division\<close>





subsection \<open>Examples\<close>













section \<open>Properties of the timestamp resolver\<close>

subsection \<open>The first token of a line\<close>

lemma takeWhile_append_stop:
  "ws = [] \<or> \<not> Q (hd ws) \<Longrightarrow> takeWhile Q (x @ ws) = takeWhile Q x"
  by (induction x) (auto simp: takeWhile_eq_Nil_iff neq_Nil_conv)

lemma token_before_spaces:
  assumes "\<forall>c \<in> set ws. P c" and "r = [] \<or> \<not> P (last r)"
  shows "takeWhile (\<lambda>c. \<not> P c) (dropWhile P (r @ ws)) = takeWhile (\<lambda>c. \<not> P c) (dropWhile P r)"
  using assms(2)
proof (induction r)
  case Nil
  have dw: "dropWhile P ws = []" using assms(1) by simp
  show ?case by (simp add: dw)
next
  case (Cons c r)
  show ?case
  proof (cases "P c")
    case True
    then have "r \<noteq> []" using Cons.prems by auto
    then have "r = [] \<or> \<not> P (last r)" using Cons.prems by simp
    then show ?thesis using True Cons.IH by simp
  next
    case False
    have "ws = [] \<or> \<not> (\<lambda>c. \<not> P c) (hd ws)" using assms(1) by (cases ws) auto
    then have "takeWhile (\<lambda>c. \<not> P c) ((c # r) @ ws) = takeWhile (\<lambda>c. \<not> P c) (c # r)"
      by (rule takeWhile_append_stop)
    then show ?thesis using False by simp
  qed
qed

lemma rstrip_decompose:
  "\<exists>ws. s = rstrip s @ ws \<and> (\<forall>c \<in> set ws. is_space c)"
proof -
  have "rev (dropWhile is_space (rev s)) @ rev (takeWhile is_space (rev s)) = s"
    by (simp add: rev_append [symmetric])
  moreover have "\<forall>c \<in> set (rev (takeWhile is_space (rev s))). is_space c"
    by (auto dest: set_takeWhileD)
  ultimately show ?thesis unfolding rstrip_def by metis
qed

lemma rstrip_last: "rstrip s = [] \<or> \<not> is_space (last (rstrip s))"
proof (cases "dropWhile is_space (rev s)")
  case Nil
  then show ?thesis by (simp add: rstrip_def)
next
  case (Cons c cs)
  then have "\<not> is_space c" using hd_dropWhile [of is_space "rev s"] by auto
  then show ?thesis using Cons by (simp add: rstrip_def)
qed

lemma first_token_strip:
  "takeWhile (\<lambda>c. \<not> is_space c) (dropWhile is_space (rstrip s))
     = takeWhile (\<lambda>c. \<not> is_space c) (dropWhile is_space s)"
proof -
  obtain ws where ws: "s = rstrip s @ ws" "\<forall>c \<in> set ws. is_space c"
    using rstrip_decompose by blast
  have "takeWhile (\<lambda>c. \<not> is_space c) (dropWhile is_space (rstrip s @ ws))
      = takeWhile (\<lambda>c. \<not> is_space c) (dropWhile is_space (rstrip s))"
    using ws(2) rstrip_last by (rule token_before_spaces)
  then show ?thesis using ws(1) by simp
qed

lemma split_ws_first_token:
  "(case split_ws (strip line) of [] \<Rightarrow> None | p # ps \<Rightarrow> py_int p) = first_token_int line"
proof -
  define t where "t = dropWhile is_space (rstrip line)"
  have d: "dropWhile is_space (strip line) = t"
    by (simp add: strip_def lstrip_def t_def dropWhile_idem)
  have tok: "takeWhile (\<lambda>c. \<not> is_space c) t
      = takeWhile (\<lambda>c. \<not> is_space c) (dropWhile is_space line)"
    unfolding t_def by (rule first_token_strip)
  show ?thesis
  proof (cases "t = []")
    case True
    then have "split_ws (strip line) = []" by (subst split_ws.simps) (simp add: d)
    moreover have "first_token line = None" using tok True by (simp add: first_token_def)
    ultimately show ?thesis by (simp add: first_token_int_def)
  next
    case False
    then have "\<not> is_space (hd t)" unfolding t_def using hd_dropWhile by blast
    then have ne: "takeWhile (\<lambda>c. \<not> is_space c) t \<noteq> []"
      using False by (cases t) auto
    have "split_ws (strip line) = takeWhile (\<lambda>c. \<not> is_space c) t
        # split_ws (dropWhile (\<lambda>c. \<not> is_space c) t)"
      using False by (subst split_ws.simps) (simp add: d)
    moreover have "first_token line = Some (takeWhile (\<lambda>c. \<not> is_space c) t)"
      using tok ne by (simp add: first_token_def)
    ultimately show ?thesis by (simp add: first_token_int_def)
  qed
qed

subsection \<open>The line that is read\<close>

lemma line_loop_line_at:
  "line_loop ls fails idx n =
     (case line_at ls (n - idx + 1) of
        None \<Rightarrow> if fails then Inl FileReadError else Inr None
      | Some line \<Rightarrow> Inr (first_token_int line))"
proof (induction ls arbitrary: idx)
  case Nil
  have "line_at [] (n - idx + 1) = None" by (auto simp: line_at_def)
  then show ?case by simp
next
  case (Cons l ls)
  show ?case
  proof (cases "idx = n")
    case True
    have "line_at (l # ls) (n - idx + 1) = Some l" using True by (simp add: line_at_def)
    moreover have "line_loop (l # ls) fails idx n = Inr (first_token_int l)"
      using True split_ws_first_token [of l] by (simp split: list.splits)
    ultimately show ?thesis by simp
  next
    case False
    have "line_at (l # ls) (n - idx + 1) = line_at ls (n - (idx + 1) + 1)"
    proof (cases "idx < n")
      case True
      then have "nat (n - idx) = Suc (nat (n - idx - 1))" by simp
      then show ?thesis using True by (auto simp: line_at_def)
    next
      case False
      with \<open>idx \<noteq> n\<close> show ?thesis by (simp add: line_at_def)
    qed
    then show ?thesis using False Cons.IH [of "idx + 1"] by simp
  qed
qed

subsection \<open>The choice of the opener\<close>

lemma path_suffix_gz: "path_suffix p = ''.gz'' \<longleftrightarrow> has_gz_suffix (path_name p)"
proof
  define name where "name = path_name p"
  define ext where "ext = rev (takeWhile (\<lambda>c. c \<noteq> CHR ''.'') (rev name))"
  assume "path_suffix p = ''.gz''"
  then have "CHR ''.'' \<in> set name \<and> length ext + 1 < length name \<and> ext = ''gz''"
    unfolding path_suffix_def Let_def name_def [symmetric] ext_def [symmetric]
    by (simp split: if_splits)
  then have c: "CHR ''.'' \<in> set name" "length ext + 1 < length name" and e: "ext = ''gz''"
    by blast+
  have tw: "takeWhile (\<lambda>c. c \<noteq> CHR ''.'') (rev name) = ''zg''"
    using e unfolding ext_def by (metis rev_rev_ident rev.simps(2) rev.simps(1) append_Nil append_Cons)
  have ne: "dropWhile (\<lambda>c. c \<noteq> CHR ''.'') (rev name) \<noteq> []"
    using c(1) by (simp add: dropWhile_eq_Nil_conv)
  then have "hd (dropWhile (\<lambda>c. c \<noteq> CHR ''.'') (rev name)) = CHR ''.''"
    using hd_dropWhile [of "\<lambda>c. c \<noteq> CHR ''.''" "rev name"] by simp
  then obtain rest where dw: "dropWhile (\<lambda>c. c \<noteq> CHR ''.'') (rev name) = CHR ''.'' # rest"
    using ne by (cases "dropWhile (\<lambda>c. c \<noteq> CHR ''.'') (rev name)") auto
  have "rev name = ''zg'' @ CHR ''.'' # rest"
    using takeWhile_dropWhile_id [of "\<lambda>c. c \<noteq> CHR ''.''" "rev name"] tw dw by simp
  then have "rev (rev name) = rev (''zg'' @ CHR ''.'' # rest)" by simp
  then have n: "name = rev rest @ ''.gz''" by simp
  have "length ext = 2" by (simp add: e)
  then have "3 < length name" using c(2) by simp
  then show "has_gz_suffix (path_name p)"
    using n by (simp add: has_gz_suffix_def endswith_def name_def [symmetric])
next
  define name where "name = path_name p"
  assume "has_gz_suffix (path_name p)"
  then have l: "3 < length name" and d: "drop (length name - 3) name = ''.gz''"
    by (simp_all add: has_gz_suffix_def endswith_def name_def numeral_3_eq_3)
  define stem where "stem = take (length name - 3) name"
  have n: "name = stem @ ''.gz''"
    using d append_take_drop_id [of "length name - 3" name] by (simp add: stem_def)
  have "rev name = ''zg'' @ CHR ''.'' # rev stem" by (simp add: n)
  then have tw: "takeWhile (\<lambda>c. c \<noteq> CHR ''.'') (rev name) = ''zg''" by simp
  have "CHR ''.'' \<in> set name" by (simp add: n)
  then show "path_suffix p = ''.gz''"
    using l tw by (simp add: path_suffix_def Let_def name_def [symmetric])
qed

lemma read_line_timestamp_line:
  "read_line_timestamp fs p n =
     (case fs (str_path p) of
        NoSuchFile \<Rightarrow> Inr None
      | CannotOpen \<Rightarrow> Inl FileReadError
      | TextFile f \<Rightarrow>
          (let handle = (if has_gz_suffix (path_name p) then gunzip_read f else plain_read f)
           in case line_at (stream_lines handle) n of
                None \<Rightarrow> if stream_fails handle then Inl FileReadError else Inr None
              | Some line \<Rightarrow> Inr (first_token_int line)))"
  by (simp add: read_line_timestamp_def Let_def line_loop_line_at path_suffix_gz
        split: node.splits)

lemma join_sep_last: "xs \<noteq> [] \<Longrightarrow> \<exists>pre. join_sep xs = pre @ last xs"
proof (induction xs rule: join_sep.induct)
  case 1
  then show ?case by simp
next
  case (2 x)
  show ?case by simp
next
  case (3 x y ys)
  then obtain pre where "join_sep (y # ys) = pre @ last (y # ys)" by auto
  then have "join_sep (x # y # ys) = (x @ ''/'' @ pre) @ last (x # y # ys)" by simp
  then show ?case by blast
qed

lemma str_path_name:
  assumes "path_parts p \<noteq> []"
  shows "endswith (str_path p) (path_name p)"
proof -
  obtain pre where pre: "join_sep (path_parts p) = pre @ last (path_parts p)"
    using join_sep_last [OF assms] by blast
  have "last (path_parts p) \<noteq> [] \<or> path_anchor p @ pre = [] \<or> path_anchor p @ pre \<noteq> []"
    by blast
  have s: "path_anchor p @ join_sep (path_parts p) = (path_anchor p @ pre) @ path_name p"
    using assms pre by (simp add: path_name_def)
  show ?thesis
  proof (cases "path_anchor p @ join_sep (path_parts p) = []")
    case True
    then have "path_name p = []" using s by simp
    then show ?thesis by (simp add: endswith_def)
  next
    case False
    then have "str_path p = (path_anchor p @ pre) @ path_name p"
      using s by (simp add: str_path_def Let_def)
    then show ?thesis by (simp add: endswith_def)
  qed
qed

subsection \<open>Examples\<close>

lemma example_paths:
  "str_path (path_of ''/data/binance/BTCUSDT/2021-08-13-23.gz'')
     = ''/data/binance/BTCUSDT/2021-08-13-23.gz''"
  "str_path (path_of ''/data/binance/BTCUSDT/.gz'') = ''/data/binance/BTCUSDT/.gz''"
  "str_path (path_of ''/data/binance/BTCUSDT/2021-08-13-22'')
     = ''/data/binance/BTCUSDT/2021-08-13-22''"
  "str_path (path_of ''/data/binance/BTCUSDT/2021-08-13-21.gz'')
     = ''/data/binance/BTCUSDT/2021-08-13-21.gz''"
  "str_path (path_of ''/data/binance/BTCUSDT'') = ''/data/binance/BTCUSDT''"
  "str_path (path_of ''/data/binance/BTCUSDT/2021-08-13-20.gz'')
     = ''/data/binance/BTCUSDT/2021-08-13-20.gz''"
  by code_simp+

lemma example_names:
  "has_gz_suffix (path_name (path_of ''/data/binance/BTCUSDT/2021-08-13-23.gz''))"
  "\<not> has_gz_suffix (path_name (path_of ''/data/binance/BTCUSDT/.gz''))"
  "ends_in_gz (path_name (path_of ''/data/binance/BTCUSDT/.gz''))"
  "\<not> has_gz_suffix (path_name (path_of ''/data/binance/BTCUSDT/2021-08-13-22''))"
  "has_gz_suffix (path_name (path_of ''/data/binance/BTCUSDT/2021-08-13-21.gz''))"
  by code_simp+

lemma example_resolve_path:
  "resolve_file_path ''/data/binance'' ''BTCUSDT/2021-08-13-23.gz''
     = path_of ''/data/binance/BTCUSDT/2021-08-13-23.gz''"
  "resolve_file_path ''/data/binance/'' ''./BTCUSDT//2021-08-13-23.gz''
     = path_of ''/data/binance/BTCUSDT/2021-08-13-23.gz''"
  by code_simp+

lemma example_reads:
  "read_line_timestamp example_files (path_of ''/data/binance/BTCUSDT/2021-08-13-23.gz'') 3
     = Inr (Some 1628899260000)"
  "read_line_timestamp example_files (path_of ''/data/binance/BTCUSDT/2021-08-13-23.gz'') 2
     = Inr None"
  "read_line_timestamp example_files (path_of ''/data/binance/BTCUSDT/2021-08-13-23.gz'') 4
     = Inr None"
  "read_line_timestamp example_files (path_of ''/data/binance/BTCUSDT/2021-08-13-23.gz'') 5
     = Inr None"
  "read_line_timestamp example_files (path_of ''/data/binance/BTCUSDT/2021-08-13-20.gz'') 3
     = Inr None"
  "read_line_timestamp example_files (path_of ''/data/binance/BTCUSDT/.gz'') 1
     = Inr (Some 1628899000000)"
  "read_line_timestamp example_files (path_of ''/data/binance/BTCUSDT/2021-08-13-22'') 1
     = Inr (Some 1628899000000)"
  "read_line_timestamp example_files (path_of ''/data/binance/BTCUSDT/2021-08-13-21.gz'') 1
     = Inr (Some 1628899100000)"
  "read_line_timestamp example_files (path_of ''/data/binance/BTCUSDT/2021-08-13-21.gz'') 3
     = Inl FileReadError"
  "read_line_timestamp example_files (path_of ''/data/binance/BTCUSDT'') 1
     = Inl FileReadError"
  by code_simp+

text \<open>
  Claim C9, as written, fails in two ways. The opener is chosen by \<open>Path.suffix\<close>, not
  by the ending of the file name: a file named \<open>.gz\<close> has no suffix and is read as
  plain text. And the resolver does not always return: a path that exists but cannot
  be opened as a file (here a directory), and a gzip stream that ends in an error
  before the line is reached, raise an exception that nothing catches.
\<close>

theorem resolver_raises_or_reads_plain:
  "ends_in_gz (path_name (path_of ''/data/binance/BTCUSDT/.gz''))
   \<and> example_files (str_path (path_of ''/data/binance/BTCUSDT/.gz'')) = TextFile plain_file
   \<and> stream_fails (gunzip_read plain_file)
   \<and> read_line_timestamp example_files (path_of ''/data/binance/BTCUSDT/.gz'') 1
       = Inr (Some 1628899000000)
   \<and> example_files (str_path (path_of ''/data/binance/BTCUSDT'')) = CannotOpen
   \<and> read_line_timestamp example_files (path_of ''/data/binance/BTCUSDT'') 1
       = Inl FileReadError
   \<and> read_line_timestamp example_files (path_of ''/data/binance/BTCUSDT/2021-08-13-21.gz'') 3
       = Inl FileReadError"
  using example_names(3) example_reads(6,9,10)
  by (simp add: example_paths example_files_def plain_file_def)

text \<open>
  Claim C9, amended. When the gap row carries \<open>gap_end_ts\<close>, the resolver returns it
  whatever the environment holds, so no file is read. Otherwise the result is that of
  \<open>read_line_timestamp\<close> on the backing file and \<open>start_line\<close>. The file is opened
  through \<open>gzip\<close> exactly when its name is some non-empty text followed by \<open>.gz\<close>
  (the name is the end of the path that is opened). A path with nothing behind it is
  unresolvable; a path that cannot be opened raises. On a file, the line numbered
  \<open>start_line\<close>, counted from 1, gives the integer of its first whitespace-delimited
  token; when the stream has no such line the result is unresolvable if the stream
  ends regularly, and an exception if it ends in an error. So the result is
  unresolvable exactly when nothing is behind the path, or the stream ends regularly
  before the line, or the line has no first token that is a valid integer (a blank
  line has no token).
\<close>

theorem resolve_end_ts_cases:
  "(row_gap_end_ts row = Some t \<longrightarrow>
      resolve_end_ts E row = Inr (None, Some t) \<and> resolve_end_ts E' row = resolve_end_ts E row)
   \<and> (row_gap_end_ts row = None \<longrightarrow>
        resolve_end_ts E row =
          (case read_line_timestamp (files E)
                  (resolve_file_path (row_root_path row) (row_relative_path row))
                  (row_start_line row) of
             Inl e \<Rightarrow> Inl e
           | Inr ts \<Rightarrow>
               Inr (Some (resolve_file_path (row_root_path row) (row_relative_path row)), ts)))
   \<and> (path_suffix p = ''.gz'' \<longleftrightarrow> has_gz_suffix (path_name p))
   \<and> (path_parts p \<noteq> [] \<longrightarrow> endswith (str_path p) (path_name p))
   \<and> (fs (str_path p) = NoSuchFile \<longrightarrow> read_line_timestamp fs p n = Inr None)
   \<and> (fs (str_path p) = CannotOpen \<longrightarrow> read_line_timestamp fs p n = Inl FileReadError)
   \<and> (fs (str_path p) = TextFile f
        \<and> handle = (if has_gz_suffix (path_name p) then gunzip_read f else plain_read f) \<longrightarrow>
          (line_at (stream_lines handle) n = Some line \<longrightarrow>
             read_line_timestamp fs p n = Inr (first_token_int line))
          \<and> (line_at (stream_lines handle) n = None \<and> \<not> stream_fails handle \<longrightarrow>
               read_line_timestamp fs p n = Inr None)
          \<and> (line_at (stream_lines handle) n = None \<and> stream_fails handle \<longrightarrow>
               read_line_timestamp fs p n = Inl FileReadError))
   \<and> (read_line_timestamp fs p n = Inr None \<longleftrightarrow>
        fs (str_path p) = NoSuchFile
        \<or> (\<exists>g. fs (str_path p) = TextFile g
              \<and> line_at (stream_lines (if has_gz_suffix (path_name p) then gunzip_read g
                                        else plain_read g)) n = None
              \<and> \<not> stream_fails (if has_gz_suffix (path_name p) then gunzip_read g
                                  else plain_read g))
        \<or> (\<exists>g l. fs (str_path p) = TextFile g
              \<and> line_at (stream_lines (if has_gz_suffix (path_name p) then gunzip_read g
                                        else plain_read g)) n = Some l
              \<and> first_token_int l = None))"
proof -
  have present: "row_gap_end_ts row = Some t \<longrightarrow>
      resolve_end_ts E row = Inr (None, Some t) \<and> resolve_end_ts E' row = resolve_end_ts E row"
    by (simp add: resolve_end_ts_def)
  have absent: "row_gap_end_ts row = None \<longrightarrow>
        resolve_end_ts E row =
          (case read_line_timestamp (files E)
                  (resolve_file_path (row_root_path row) (row_relative_path row))
                  (row_start_line row) of
             Inl e \<Rightarrow> Inl e
           | Inr ts \<Rightarrow>
               Inr (Some (resolve_file_path (row_root_path row) (row_relative_path row)), ts))"
    by (simp add: resolve_end_ts_def Let_def)
  have name: "path_parts p \<noteq> [] \<longrightarrow> endswith (str_path p) (path_name p)"
    using str_path_name by blast
  have missing: "fs (str_path p) = NoSuchFile \<longrightarrow> read_line_timestamp fs p n = Inr None"
    by (simp add: read_line_timestamp_line)
  have closed: "fs (str_path p) = CannotOpen \<longrightarrow> read_line_timestamp fs p n = Inl FileReadError"
    by (simp add: read_line_timestamp_line)
  have opened: "fs (str_path p) = TextFile f
        \<and> handle = (if has_gz_suffix (path_name p) then gunzip_read f else plain_read f) \<longrightarrow>
          (line_at (stream_lines handle) n = Some line \<longrightarrow>
             read_line_timestamp fs p n = Inr (first_token_int line))
          \<and> (line_at (stream_lines handle) n = None \<and> \<not> stream_fails handle \<longrightarrow>
               read_line_timestamp fs p n = Inr None)
          \<and> (line_at (stream_lines handle) n = None \<and> stream_fails handle \<longrightarrow>
               read_line_timestamp fs p n = Inl FileReadError)"
    by (simp add: read_line_timestamp_line Let_def)
  have none: "read_line_timestamp fs p n = Inr None \<longleftrightarrow>
        fs (str_path p) = NoSuchFile
        \<or> (\<exists>g. fs (str_path p) = TextFile g
              \<and> line_at (stream_lines (if has_gz_suffix (path_name p) then gunzip_read g
                                        else plain_read g)) n = None
              \<and> \<not> stream_fails (if has_gz_suffix (path_name p) then gunzip_read g
                                  else plain_read g))
        \<or> (\<exists>g l. fs (str_path p) = TextFile g
              \<and> line_at (stream_lines (if has_gz_suffix (path_name p) then gunzip_read g
                                        else plain_read g)) n = Some l
              \<and> first_token_int l = None)"
    unfolding read_line_timestamp_line
    by (cases "fs (str_path p)") (auto simp: Let_def split: option.splits)
  show ?thesis
    using present absent path_suffix_gz [of p] name missing closed opened none by blast
qed

theorem resolve_end_ts_cases_witness:
  "row_gap_end_ts row8 = Some 1628899260000
   \<and> resolve_end_ts example_env row8 = Inr (None, Some 1628899260000)
   \<and> resolve_end_ts (example_env\<lparr>files := example_files\<rparr>) row8
       = resolve_end_ts example_env row8
   \<and> row_gap_end_ts row7 = None
   \<and> resolve_end_ts (example_env\<lparr>files := example_files\<rparr>) row7
       = Inr (Some (path_of ''/data/binance/BTCUSDT/2021-08-13-23.gz''), Some 1628899260000)
   \<and> path_suffix (path_of ''/data/binance/BTCUSDT/2021-08-13-23.gz'') = ''.gz''
   \<and> endswith (str_path (path_of ''/data/binance/BTCUSDT/2021-08-13-23.gz''))
         (path_name (path_of ''/data/binance/BTCUSDT/2021-08-13-23.gz''))
   \<and> example_files (str_path (path_of ''/data/binance/BTCUSDT/2021-08-13-23.gz''))
       = TextFile example_file
   \<and> line_at (stream_lines (gunzip_read example_file)) 3 = Some ''1628899260000 65.7 0.2 0\<newline>''
   \<and> read_line_timestamp example_files (path_of ''/data/binance/BTCUSDT/2021-08-13-23.gz'') 3
       = Inr (first_token_int ''1628899260000 65.7 0.2 0\<newline>'')
   \<and> first_token_int ''1628899260000 65.7 0.2 0\<newline>'' = Some 1628899260000
   \<and> path_suffix (path_of ''/data/binance/BTCUSDT/2021-08-13-22'') \<noteq> ''.gz''
   \<and> example_files (str_path (path_of ''/data/binance/BTCUSDT/2021-08-13-22''))
       = TextFile plain_file
   \<and> line_at (stream_lines (plain_read plain_file)) 1 = Some ''1628899000000 65.4 0.3 1\<newline>''
   \<and> read_line_timestamp example_files (path_of ''/data/binance/BTCUSDT/2021-08-13-22'') 1
       = Inr (first_token_int ''1628899000000 65.4 0.3 1\<newline>'')
   \<and> first_token_int ''1628899000000 65.4 0.3 1\<newline>'' = Some 1628899000000
   \<and> example_files (str_path (path_of ''/data/binance/BTCUSDT/2021-08-13-20.gz'')) = NoSuchFile
   \<and> read_line_timestamp example_files (path_of ''/data/binance/BTCUSDT/2021-08-13-20.gz'') 3
       = Inr None
   \<and> example_files (str_path (path_of ''/data/binance/BTCUSDT'')) = CannotOpen
   \<and> read_line_timestamp example_files (path_of ''/data/binance/BTCUSDT'') 1
       = Inl FileReadError
   \<and> line_at (stream_lines (gunzip_read cut_file)) 3 = None
   \<and> stream_fails (gunzip_read cut_file)
   \<and> read_line_timestamp example_files (path_of ''/data/binance/BTCUSDT/2021-08-13-21.gz'') 3
       = Inl FileReadError"
proof -
  let ?gz = "path_of ''/data/binance/BTCUSDT/2021-08-13-23.gz''"
  let ?plain = "path_of ''/data/binance/BTCUSDT/2021-08-13-22''"
  let ?none = "path_of ''/data/binance/BTCUSDT/2021-08-13-20.gz''"
  let ?dir = "path_of ''/data/binance/BTCUSDT''"
  let ?cut = "path_of ''/data/binance/BTCUSDT/2021-08-13-21.gz''"
  let ?l3 = "''1628899260000 65.7 0.2 0\<newline>''"
  let ?l1 = "''1628899000000 65.4 0.3 1\<newline>''"
  let ?E = "example_env\<lparr>files := example_files\<rparr>"
  have r8: "row_gap_end_ts row8 = Some 1628899260000" by (simp add: row8_def)
  have r7: "row_gap_end_ts row7 = None" by (simp add: row7_def)
  have p7: "resolve_file_path (row_root_path row7) (row_relative_path row7) = ?gz"
    by (simp add: row7_def example_resolve_path(1))
  have s7: "row_start_line row7 = 3" by (simp add: row7_def)
  have fE: "files ?E = example_files" by simp
  have fgz: "example_files (str_path ?gz) = TextFile example_file"
    by (simp add: example_paths example_files_def)
  have fplain: "example_files (str_path ?plain) = TextFile plain_file"
    by (simp add: example_paths example_files_def)
  have fnone: "example_files (str_path ?none) = NoSuchFile"
    by (simp add: example_paths example_files_def)
  have fdir: "example_files (str_path ?dir) = CannotOpen"
    by (simp add: example_paths example_files_def)
  have fcut: "example_files (str_path ?cut) = TextFile cut_file"
    by (simp add: example_paths example_files_def)
  have l3: "line_at (stream_lines (gunzip_read example_file)) 3 = Some ?l3"
    by (simp add: example_file_def line_at_def)
  have l1: "line_at (stream_lines (plain_read plain_file)) 1 = Some ?l1"
    by (simp add: plain_file_def line_at_def)
  have lc: "line_at (stream_lines (gunzip_read cut_file)) 3 = None"
    "stream_fails (gunzip_read cut_file)"
    by (simp_all add: cut_file_def line_at_def)
  have v3: "first_token_int ?l3 = Some 1628899260000" by code_simp
  have v1: "first_token_int ?l1 = Some 1628899000000" by code_simp
  have parts: "path_parts ?gz \<noteq> []" by code_simp
  note t8 = resolve_end_ts_cases [where row = row8 and t = 1628899260000 and E = example_env
      and E' = ?E]
  note t7 = resolve_end_ts_cases [where row = row7 and E = ?E]
  note tgz = resolve_end_ts_cases [where fs = example_files and p = ?gz and f = example_file
      and n = 3 and line = ?l3 and handle = "gunzip_read example_file"]
  note tplain = resolve_end_ts_cases [where fs = example_files and p = ?plain and f = plain_file
      and n = 1 and line = ?l1 and handle = "plain_read plain_file"]
  note tnone = resolve_end_ts_cases [where fs = example_files and p = ?none and n = 3]
  note tdir = resolve_end_ts_cases [where fs = example_files and p = ?dir and n = 1]
  note tcut = resolve_end_ts_cases [where fs = example_files and p = ?cut and f = cut_file
      and n = 3 and handle = "gunzip_read cut_file"]
  have a8: "resolve_end_ts example_env row8 = Inr (None, Some 1628899260000)
      \<and> resolve_end_ts ?E row8 = resolve_end_ts example_env row8"
    using t8 r8 by blast
  have sgz: "path_suffix ?gz = ''.gz''" using tgz example_names(1) by blast
  have ngz: "endswith (str_path ?gz) (path_name ?gz)" using tgz parts by blast
  have rgz: "read_line_timestamp example_files ?gz 3 = Inr (first_token_int ?l3)"
    using tgz fgz l3 example_names(1) by simp
  have "resolve_end_ts ?E row7 =
          (case read_line_timestamp (files ?E)
                  (resolve_file_path (row_root_path row7) (row_relative_path row7))
                  (row_start_line row7) of
             Inl e \<Rightarrow> Inl e
           | Inr ts \<Rightarrow>
               Inr (Some (resolve_file_path (row_root_path row7) (row_relative_path row7)), ts))"
    using t7 r7 by blast
  then have a7: "resolve_end_ts ?E row7 = Inr (Some ?gz, Some 1628899260000)"
    by (simp only: fE p7 s7 rgz v3 sum.case)
  have splain: "path_suffix ?plain \<noteq> ''.gz''" using tplain example_names(4) by blast
  have rplain: "read_line_timestamp example_files ?plain 1 = Inr (first_token_int ?l1)"
    using tplain fplain l1 example_names(4) by simp
  have rnone: "read_line_timestamp example_files ?none 3 = Inr None"
    using tnone fnone by blast
  have rdir: "read_line_timestamp example_files ?dir 1 = Inl FileReadError"
    using tdir fdir by blast
  have rcut: "read_line_timestamp example_files ?cut 3 = Inl FileReadError"
    using tcut fcut lc example_names(5) by simp
  show ?thesis
    using r8 a8 r7 a7 sgz ngz fgz l3 rgz v3 splain fplain l1 rplain v1 fnone rnone fdir rdir
      lc rcut
    by blast
qed

end
